theory Spec2Isabelle
  imports Main "HOL-Library.Word"
begin

unbundle bit_operations_syntax

section \<open>Bytes and the big-endian length prefix\<close>

text \<open>
  Go's \<^verbatim>\<open>[]byte\<close> is a list of 8-bit words, \<^verbatim>\<open>uint32\<close> a 32-bit word.
  \<^verbatim>\<open>binary.BigEndian.Uint32(b)\<close> is
  \<^verbatim>\<open>uint32(b[3]) | uint32(b[2])<<8 | uint32(b[1])<<16 | uint32(b[0])<<24\<close> and panics
  when \<^verbatim>\<open>b\<close> has fewer than four bytes; both call sites pass exactly four bytes.
  \<^verbatim>\<open>binary.BigEndian.PutUint32(b, v)\<close> stores
  \<^verbatim>\<open>byte(v>>24), byte(v>>16), byte(v>>8), byte(v)\<close>.
\<close>

type_synonym byte = "8 word"
type_synonym uint32 = "32 word"

definition Uint32 :: "byte list \<Rightarrow> uint32" where
  "Uint32 b =
     (ucast (b ! 3) OR push_bit 8 (ucast (b ! 2)) OR push_bit 16 (ucast (b ! 1))
        OR push_bit 24 (ucast (b ! 0)))"

definition PutUint32 :: "uint32 \<Rightarrow> byte list" where
  "PutUint32 v = [ucast (drop_bit 24 v), ucast (drop_bit 16 v), ucast (drop_bit 8 v), ucast v]"

text \<open>The bytes of an ASCII text.\<close>

definition bytes_of :: "string \<Rightarrow> byte list" where
  "bytes_of txt = map (of_nat \<circ> of_char) txt"

section \<open>The receiver-side parser (WebRTCReceiver.handleMessage)\<close>

text \<open>
  \<^verbatim>\<open>FileMetadata\<close> is the struct of common.go; \<^verbatim>\<open>FileSize\<close> is an \<^verbatim>\<open>int64\<close> that the
  JSON may make zero or negative, so it is an \<open>int\<close>.
\<close>

record FileMetadata =
  FileName :: string
  FileSize :: int

text \<open>
  \<^verbatim>\<open>*os.File\<close>: the bytes written so far and whether \<^verbatim>\<open>Close\<close> has been called.
  \<^verbatim>\<open>Write\<close> on a closed file returns an error. A \<^verbatim>\<open>Write\<close> that succeeds writes all of
  its argument; one that fails is taken to write nothing.
\<close>

record os_file =
  contents :: "byte list"
  closed :: bool

text \<open>
  The fields of \<^verbatim>\<open>WebRTCReceiver\<close> that \<^verbatim>\<open>handleMessage\<close> reads or writes
  (\<open>file_p\<close> is the field \<^verbatim>\<open>file\<close>). A nil pointer is \<open>None\<close>. \<open>dc_sent\<close> lists the
  messages handed to \<^verbatim>\<open>r.dc.Send\<close> successfully. \<^verbatim>\<open>savePath\<close> and \<^verbatim>\<open>startTime\<close> only
  feed the path resolution and the printed statistics, which are outside this model.
\<close>

record WebRTCReceiver =
  file_p :: "os_file option"
  metadata :: "FileMetadata option"
  state :: int
  metadataLen :: uint32
  metadataBuf :: "byte list"
  totalReceived :: int
  dc_sent :: "byte list list"

text \<open>
  What the parser calls but does not define: \<^verbatim>\<open>json.Unmarshal\<close> into a
  \<^verbatim>\<open>FileMetadata\<close> (\<open>None\<close> when decoding fails), whether \<^verbatim>\<open>os.MkdirAll\<close> of the
  destination directory, \<^verbatim>\<open>os.Create\<close> and \<^verbatim>\<open>file.Write\<close> succeed, whether the
  data channel is non-nil and open, and whether \<^verbatim>\<open>dc.Send\<close> succeeds.
\<close>

record recv_env =
  json_Unmarshal :: "byte list \<Rightarrow> FileMetadata option"
  mkdir_ok :: bool
  create_ok :: bool
  write_ok :: bool
  dc_open :: bool
  dc_send_ok :: bool

datatype recv_error = DecodeError | MkdirError | CreateError | FileNotCreated | WriteError

text \<open>\<^verbatim>\<open>json.Marshal(map[string]string{"type": "file_received"})\<close>, as bytes.\<close>

definition ack_json :: "byte list" where
  \<open>ack_json = bytes_of ''{"type":"file_received"}''\<close>

text \<open>
  The completion branch (lines 472 to 502): close the file, print the statistics, send the
  acknowledgment when the channel is there and open. A failed \<^verbatim>\<open>Send\<close> is only printed.
\<close>

definition complete :: "recv_env \<Rightarrow> WebRTCReceiver \<Rightarrow> WebRTCReceiver" where
  "complete env r =
     (let r1 = r\<lparr>file_p := map_option (\<lambda>f. f\<lparr>closed := True\<rparr>) (file_p r)\<rparr>
      in if dc_open env \<and> dc_send_ok env then r1\<lparr>dc_sent := dc_sent r1 @ [ack_json]\<rparr> else r1)"

text \<open>
  \<^verbatim>\<open>handleMessage\<close> returns the error, and the receiver keeps whatever it had assigned
  before returning: the caller (\<^verbatim>\<open>OnMessage\<close>) prints the error and goes on with the next
  message. So the model returns the receiver together with the optional error.
  The two recursive calls re-feed the surplus bytes of a message to the next state.
\<close>

function WebRTCReceiver_handleMessage ::
  "recv_env \<Rightarrow> WebRTCReceiver \<Rightarrow> byte list \<Rightarrow> WebRTCReceiver \<times> recv_error option" where
  "WebRTCReceiver_handleMessage env r data =
     (if state r = 0 then
        (if length data \<ge> 4 then
           (let r1 = r\<lparr>metadataLen := Uint32 (take 4 data), metadataBuf := [], state := 1\<rparr>
            in if length data > 4 then WebRTCReceiver_handleMessage env r1 (drop 4 data)
               else (r1, None))
         else (r, None))
      else if state r = 1 then
        (let r1 = r\<lparr>metadataBuf := metadataBuf r @ data\<rparr>
         in if length (metadataBuf r1) \<ge> unat (metadataLen r1) then
              (case json_Unmarshal env (take (unat (metadataLen r1)) (metadataBuf r1)) of
                 None \<Rightarrow> (r1, Some DecodeError)
               | Some md \<Rightarrow>
                   (let r2 = r1\<lparr>metadata := Some md\<rparr>
                    in if \<not> mkdir_ok env then (r2, Some MkdirError)
                       else if \<not> create_ok env then (r2, Some CreateError)
                       else
                         (let r3 = r2\<lparr>file_p := Some \<lparr>contents = [], closed = False\<rparr>, state := 2\<rparr>
                          in if length (metadataBuf r3) > unat (metadataLen r3) then
                               WebRTCReceiver_handleMessage env r3
                                 (drop (unat (metadataLen r3)) (metadataBuf r3))
                             else (r3, None))))
            else (r1, None))
      else if state r = 2 then
        (case file_p r of
           None \<Rightarrow> (r, Some FileNotCreated)
         | Some f \<Rightarrow>
             if closed f \<or> \<not> write_ok env then (r, Some WriteError)
             else
               (let r1 = r\<lparr>file_p := Some (f\<lparr>contents := contents f @ data\<rparr>),
                           totalReceived := totalReceived r + int (length data)\<rparr>
                in case metadata r1 of
                     None \<Rightarrow> (r1, None)
                   | Some md \<Rightarrow>
                       if FileSize md > 0 then
                         (if totalReceived r1 \<ge> FileSize md then (complete env r1, None)
                          else (r1, None))
                       else (r1, None)))
      else (r, None))"
  by pat_completeness auto
termination
  by (relation "measure (\<lambda>(env, r, data). if state r = 0 then 2 else if state r = 1 then 1 else 0)")
     auto

declare WebRTCReceiver_handleMessage.simps [simp del]

text \<open>
  \<^verbatim>\<open>OnDataChannel\<close> sets the state to 0 on a receiver whose other fields still have the
  zero values \<^verbatim>\<open>NewWebRTCReceiver\<close> left.
\<close>

definition NewWebRTCReceiver :: WebRTCReceiver where
  "NewWebRTCReceiver =
     \<lparr>file_p = None, metadata = None, state = 0, metadataLen = 0, metadataBuf = [],
      totalReceived = 0, dc_sent = []\<rparr>"

text \<open>
  The \<^verbatim>\<open>OnMessage\<close> callback over a sequence of channel messages: each message goes
  through \<^verbatim>\<open>handleMessage\<close>; an error is printed (here: collected) and the next message
  is handled on the receiver as the failed call left it.
\<close>

fun OnMessage :: "recv_env \<Rightarrow> WebRTCReceiver \<Rightarrow> byte list list \<Rightarrow> WebRTCReceiver \<times> recv_error list" where
  "OnMessage env r [] = (r, [])"
| "OnMessage env r (m # ms) =
     (case WebRTCReceiver_handleMessage env r m of
        (r', None) \<Rightarrow> OnMessage env r' ms
      | (r', Some e) \<Rightarrow> (case OnMessage env r' ms of (r'', es) \<Rightarrow> (r'', e # es)))"

section \<open>The sender side (WebRTCSender.sendFile)\<close>

text \<open>
  What \<^verbatim>\<open>sendFile\<close> calls but does not define. \<open>os_Open\<close> is the content of the file
  at \<^verbatim>\<open>s.filePath\<close>, or \<open>None\<close> when \<^verbatim>\<open>os.Open\<close> fails. \<open>json_Marshal\<close> is
  \<^verbatim>\<open>json.Marshal\<close> on a \<^verbatim>\<open>FileMetadata\<close>. \<^verbatim>\<open>file.Read\<close> may return fewer bytes than
  the buffer holds: \<open>read_n\<close> gives the count the system offers when that many bytes remain,
  and \<open>read_fails\<close> says whether the read fails there. \<open>send_ok\<close> says whether
  \<^verbatim>\<open>dc.Send\<close> of a message succeeds after the messages already sent.
\<close>

record send_env =
  os_Open :: "byte list option"
  json_Marshal :: "FileMetadata \<Rightarrow> byte list"
  read_n :: "nat \<Rightarrow> nat"
  read_fails :: "nat \<Rightarrow> bool"
  send_ok :: "byte list list \<Rightarrow> byte list \<Rightarrow> bool"

datatype read_err = NoErr | EOF | ReadError

datatype send_outcome = Sent | OpenFailed | SendFailed | ReadAborted

definition maxChunkSize :: nat where
  "maxChunkSize = 32 * 1024"

text \<open>
  \<^verbatim>\<open>file.Read(buffer)\<close> on the unread rest of the file, with a buffer of
  \<open>maxChunkSize\<close> bytes: \<^verbatim>\<open>(0, io.EOF)\<close> at the end of the file, otherwise at least
  one byte and at most what the buffer and the file hold.
\<close>

definition file_Read :: "send_env \<Rightarrow> byte list \<Rightarrow> nat \<times> read_err" where
  "file_Read env rest =
     (if rest = [] then (0, EOF)
      else if read_fails env (length rest) then (0, ReadError)
      else (max 1 (min (read_n env (length rest)) (min maxChunkSize (length rest))), NoErr))"

text \<open>\<^verbatim>\<open>dc.Send\<close>: the channel is the list of messages sent so far.\<close>

definition dc_Send :: "send_env \<Rightarrow> byte list list \<Rightarrow> byte list \<Rightarrow> byte list list \<times> bool" where
  "dc_Send env dc m = (if send_ok env dc m then (dc @ [m], True) else (dc, False))"

text \<open>
  The inner loop (lines 551 to 574) over the \<open>n\<close> bytes just read. \<^verbatim>\<open>chunkSize\<close> is
  computed once before the loop from \<open>n\<close> alone, so computing it in each round gives the
  same value. The result is the channel and whether every send succeeded.
\<close>

function send_chunks ::
  "send_env \<Rightarrow> byte list \<Rightarrow> nat \<Rightarrow> nat \<Rightarrow> byte list list \<Rightarrow> byte list list \<times> bool" where
  "send_chunks env buffer n offset dc =
     (let chunkSize = (if n > maxChunkSize then maxChunkSize else n)
      in if offset < n then
           (let chunk = (if offset + chunkSize > n then n - offset else chunkSize)
            in case dc_Send env dc (take chunk (drop offset buffer)) of
                 (dc', False) \<Rightarrow> (dc', False)
               | (dc', True) \<Rightarrow> send_chunks env buffer n (offset + chunk) dc')
         else (dc, True))"
  by pat_completeness auto
termination
  by (relation "measure (\<lambda>(env, buffer, n, offset, dc). n - offset)")
     (auto simp: maxChunkSize_def split: if_splits)

declare send_chunks.simps [simp del]

text \<open>
  The outer loop (lines 541 to 584) on the unread rest of the file. A read of \<open>n\<close> bytes
  leaves them in \<^verbatim>\<open>buffer[0:n]\<close>; the inner loop never reads beyond \<open>n\<close>.
\<close>

function read_loop ::
  "send_env \<Rightarrow> byte list \<Rightarrow> byte list list \<Rightarrow> byte list list \<times> send_outcome" where
  "read_loop env rest dc =
     (case file_Read env rest of
        (n, err) \<Rightarrow>
          (case (if n > 0 then send_chunks env (take n rest) n 0 dc else (dc, True)) of
             (dc', False) \<Rightarrow> (dc', SendFailed)
           | (dc', True) \<Rightarrow>
               if err = EOF then (dc', Sent)
               else if err \<noteq> NoErr then (dc', ReadAborted)
               else read_loop env (drop n rest) dc'))"
  by pat_completeness auto
termination
  by (relation "measure (\<lambda>(env, rest, dc). length rest)")
     (auto simp: file_Read_def split: if_splits)

declare read_loop.simps [simp del]

text \<open>
  \<^verbatim>\<open>sendFile\<close> (its parameter \<^verbatim>\<open>fileInfo\<close> is not used): the length prefix and the
  metadata are sent with the result of \<^verbatim>\<open>Send\<close> ignored, then the file is streamed. \<^verbatim>\<open>uint32(len(metadataJSON))\<close> keeps
  the low 32 bits. The result is the list of messages the channel accepted, in order,
  and how the function ended.
\<close>

definition sendFile :: "send_env \<Rightarrow> string \<Rightarrow> int \<Rightarrow> byte list list \<times> send_outcome" where
  "sendFile env fileName fileSize =
     (case os_Open env of
        None \<Rightarrow> ([], OpenFailed)
      | Some content \<Rightarrow>
          (let metadataJSON = json_Marshal env \<lparr>FileName = fileName, FileSize = fileSize\<rparr>;
               metadataLen = (of_nat (length metadataJSON) :: uint32);
               lenBuf = PutUint32 metadataLen;
               dc1 = fst (dc_Send env [] lenBuf);
               dc2 = fst (dc_Send env dc1 metadataJSON)
           in read_loop env content dc2))"

section \<open>The signaling broker (cmd/signaling/signaling_server.go)\<close>

record Message =
  Type :: string
  RoomID :: string
  FileID :: string
  SDP :: string
  Error :: string
  ClientType :: string

text \<open>
  \<^verbatim>\<open>*Client\<close> and \<^verbatim>\<open>*Room\<close> are pointers, and a room is shared by the registry and by
  every client whose \<^verbatim>\<open>room\<close> field points to it: both are addresses into a store.
  A room's \<^verbatim>\<open>clients\<close> (a \<^verbatim>\<open>map[*Client]bool\<close> that only ever holds \<^verbatim>\<open>true\<close>) is the
  set of its keys. A client's \<^verbatim>\<open>send\<close> channel is the list of queued messages, oldest
  first, and whether it has been closed; its capacity is 256 (line 98). The queue holds
  the messages themselves instead of their JSON text. \<^verbatim>\<open>createdAt\<close>, \<^verbatim>\<open>conn\<close> and the
  locks are not modelled: handlers run one at a time here.
\<close>

type_synonym client_ptr = nat
type_synonym room_ptr = nat

record Room =
  ID :: string
  clients :: "client_ptr set"

record Client =
  room :: "room_ptr option"
  send :: "Message list"
  send_closed :: bool
  clientType :: string

text \<open>
  The broker's state: the registry \<^verbatim>\<open>SignalingServer.rooms\<close>, the store of rooms and of
  clients, and the next unused room address (\<^verbatim>\<open>&Room{...}\<close> allocates there).
\<close>

record SignalingServer =
  rooms :: "string \<rightharpoonup> room_ptr"
  room_at :: "room_ptr \<Rightarrow> Room"
  client_at :: "client_ptr \<Rightarrow> Client"
  next_room :: room_ptr

datatype panic = SendOnClosedChannel

text \<open>The error texts, as the UTF-8 bytes of the source's string literals.\<close>

definition err_invalid_format :: string where \<comment> \<open>line 180: invalid message format\<close>
  "err_invalid_format =
     [CHR 0xE6, CHR 0x97, CHR 0xA0, CHR 0xE6, CHR 0x95, CHR 0x88, CHR 0xE7, CHR 0x9A,
      CHR 0x84, CHR 0xE6, CHR 0xB6, CHR 0x88, CHR 0xE6, CHR 0x81, CHR 0xAF, CHR 0xE6,
      CHR 0xA0, CHR 0xBC, CHR 0xE5, CHR 0xBC, CHR 0x8F]"

definition err_empty_room_id :: string where \<comment> \<open>lines 201 and 233: the room id must not be empty\<close>
  "err_empty_room_id =
     [CHR 0xE6, CHR 0x88, CHR 0xBF, CHR 0xE9, CHR 0x97, CHR 0xB4, CHR 0x49, CHR 0x44,
      CHR 0xE4, CHR 0xB8, CHR 0x8D, CHR 0xE8, CHR 0x83, CHR 0xBD, CHR 0xE4, CHR 0xB8,
      CHR 0xBA, CHR 0xE7, CHR 0xA9, CHR 0xBA]"

definition err_room_exists :: string where \<comment> \<open>line 208: the room already exists\<close>
  "err_room_exists =
     [CHR 0xE6, CHR 0x88, CHR 0xBF, CHR 0xE9, CHR 0x97, CHR 0xB4, CHR 0xE5, CHR 0xB7,
      CHR 0xB2, CHR 0xE5, CHR 0xAD, CHR 0x98, CHR 0xE5, CHR 0x9C, CHR 0xA8]"

definition err_room_not_found :: string where \<comment> \<open>line 239: the room does not exist\<close>
  "err_room_not_found =
     [CHR 0xE6, CHR 0x88, CHR 0xBF, CHR 0xE9, CHR 0x97, CHR 0xB4, CHR 0xE4, CHR 0xB8,
      CHR 0x8D, CHR 0xE5, CHR 0xAD, CHR 0x98, CHR 0xE5, CHR 0x9C, CHR 0xA8]"

definition err_not_in_room :: string where \<comment> \<open>lines 268 and 289: not in a room\<close>
  "err_not_in_room =
     [CHR 0xE6, CHR 0x9C, CHR 0xAA, CHR 0xE5, CHR 0x8A, CHR 0xA0, CHR 0xE5, CHR 0x85,
      CHR 0xA5, CHR 0xE6, CHR 0x88, CHR 0xBF, CHR 0xE9, CHR 0x97, CHR 0xB4]"

definition err_only_sender :: string where \<comment> \<open>line 273: only the sender may send an offer\<close>
  "err_only_sender =
     [CHR 0xE5, CHR 0x8F, CHR 0xAA, CHR 0xE6, CHR 0x9C, CHR 0x89, CHR 0xE5, CHR 0x8F,
      CHR 0x91, CHR 0xE9, CHR 0x80, CHR 0x81, CHR 0xE7, CHR 0xAB, CHR 0xAF, CHR 0xE5,
      CHR 0x8F, CHR 0xAF, CHR 0xE4, CHR 0xBB, CHR 0xA5, CHR 0xE5, CHR 0x8F, CHR 0x91,
      CHR 0xE9, CHR 0x80, CHR 0x81, CHR 0x4F, CHR 0x66, CHR 0x66, CHR 0x65, CHR 0x72]"

definition err_only_receiver :: string where \<comment> \<open>line 294: only the receiver may send an answer\<close>
  "err_only_receiver =
     [CHR 0xE5, CHR 0x8F, CHR 0xAA, CHR 0xE6, CHR 0x9C, CHR 0x89, CHR 0xE6, CHR 0x8E,
      CHR 0xA5, CHR 0xE6, CHR 0x94, CHR 0xB6, CHR 0xE7, CHR 0xAB, CHR 0xAF, CHR 0xE5,
      CHR 0x8F, CHR 0xAF, CHR 0xE4, CHR 0xBB, CHR 0xA5, CHR 0xE5, CHR 0x8F, CHR 0x91,
      CHR 0xE9, CHR 0x80, CHR 0x81, CHR 0x41, CHR 0x6E, CHR 0x73, CHR 0x77, CHR 0x65,
      CHR 0x72]"

definition err_unknown_type :: string where \<comment> \<open>line 194: unknown message type, the text before the type\<close>
  "err_unknown_type =
     [CHR 0xE6, CHR 0x9C, CHR 0xAA, CHR 0xE7, CHR 0x9F, CHR 0xA5, CHR 0xE7, CHR 0x9A,
      CHR 0x84, CHR 0xE6, CHR 0xB6, CHR 0x88, CHR 0xE6, CHR 0x81, CHR 0xAF, CHR 0xE7,
      CHR 0xB1, CHR 0xBB, CHR 0xE5, CHR 0x9E, CHR 0x8B, CHR 0x3A, CHR 0x20]"

definition NewRoom :: "SignalingServer \<Rightarrow> string \<Rightarrow> SignalingServer \<times> room_ptr" where
  "NewRoom s roomID =
     (let a = next_room s
      in (s\<lparr>room_at := (room_at s)(a := \<lparr>ID = roomID, clients = {}\<rparr>),
            rooms := (rooms s)(roomID \<mapsto> a),
            next_room := Suc a\<rparr>, a))"

definition GetRoom :: "SignalingServer \<Rightarrow> string \<Rightarrow> room_ptr option" where
  "GetRoom s roomID = rooms s roomID"

definition RemoveRoom :: "SignalingServer \<Rightarrow> string \<Rightarrow> SignalingServer" where
  "RemoveRoom s roomID = s\<lparr>rooms := (rooms s)(roomID := None)\<rparr>"

text \<open>
  \<^verbatim>\<open>select { case c.send <- data: default: close(c.send) }\<close> on a channel that is still
  open: the message is queued when there is room, otherwise the channel is closed.
\<close>

definition enqueue :: "Client \<Rightarrow> Message \<Rightarrow> Client" where
  "enqueue cl msg =
     (if length (send cl) < 256 then cl\<lparr>send := send cl @ [msg]\<rparr> else cl\<lparr>send_closed := True\<rparr>)"

text \<open>
  \<^verbatim>\<open>sendMessage\<close>: a send on a closed channel panics, also inside a \<^verbatim>\<open>select\<close>.
  \<^verbatim>\<open>json.Marshal\<close> cannot fail on a struct of strings, so that branch is left out.
\<close>

definition sendMessage :: "SignalingServer \<Rightarrow> client_ptr \<Rightarrow> Message \<Rightarrow> panic + SignalingServer" where
  "sendMessage s c msg =
     (if send_closed (client_at s c) then Inl SendOnClosedChannel
      else Inr (s\<lparr>client_at := (client_at s)(c := enqueue (client_at s c) msg)\<rparr>))"

definition sendError :: "SignalingServer \<Rightarrow> client_ptr \<Rightarrow> string \<Rightarrow> panic + SignalingServer" where
  "sendError s c errMsg =
     sendMessage s c \<lparr>Type = ''error'', RoomID = [], FileID = [], SDP = [], Error = errMsg,
                      ClientType = []\<rparr>"

text \<open>
  The loop of \<^verbatim>\<open>broadcastToRoom\<close> for one order of iteration: Go leaves the order of
  \<^verbatim>\<open>range\<close> over a map unspecified, and visits every key once.
\<close>

fun sendEach :: "SignalingServer \<Rightarrow> client_ptr list \<Rightarrow> Message \<Rightarrow> panic + SignalingServer" where
  "sendEach s [] msg = Inr s"
| "sendEach s (d # ds) msg =
     (case sendMessage s d msg of Inl e \<Rightarrow> Inl e | Inr s' \<Rightarrow> sendEach s' ds msg)"

text \<open>
  The same loop without an order: a panic when some target's channel is closed,
  otherwise every target's channel takes the message. \<open>sendAll_sendEach\<close> below shows
  that this is what the loop computes in any order.
\<close>

definition sendAll :: "SignalingServer \<Rightarrow> client_ptr set \<Rightarrow> Message \<Rightarrow> panic + SignalingServer" where
  "sendAll s targets msg =
     (if \<exists>d\<in>targets. send_closed (client_at s d) then Inl SendOnClosedChannel
      else Inr (s\<lparr>client_at :=
                    (\<lambda>d. if d \<in> targets then enqueue (client_at s d) msg else client_at s d)\<rparr>))"

definition broadcastToRoom ::
  "SignalingServer \<Rightarrow> client_ptr \<Rightarrow> Message \<Rightarrow> client_ptr \<Rightarrow> panic + SignalingServer" where
  "broadcastToRoom s c msg exclude =
     (case room (client_at s c) of
        None \<Rightarrow> Inr s
      | Some a \<Rightarrow> sendAll s (clients (room_at s a) - {exclude}) msg)"

definition handleCreateRoom :: "SignalingServer \<Rightarrow> client_ptr \<Rightarrow> Message \<Rightarrow> panic + SignalingServer" where
  "handleCreateRoom s c msg =
     (if RoomID msg = [] then sendError s c err_empty_room_id
      else case GetRoom s (RoomID msg) of
        Some a \<Rightarrow> sendError s c err_room_exists
      | None \<Rightarrow>
          (case NewRoom s (RoomID msg) of
             (s1, a) \<Rightarrow>
               (let s2 = s1\<lparr>client_at := (client_at s1)
                            (c := (client_at s1 c)\<lparr>room := Some a, clientType := ''sender''\<rparr>)\<rparr>;
                    s3 = s2\<lparr>room_at := (room_at s2)
                            (a := (room_at s2 a)\<lparr>clients := insert c (clients (room_at s2 a))\<rparr>)\<rparr>
                in sendMessage s3 c
                     \<lparr>Type = ''room_created'', RoomID = RoomID msg, FileID = [], SDP = [],
                      Error = [], ClientType = []\<rparr>)))"

definition handleJoinRoom :: "SignalingServer \<Rightarrow> client_ptr \<Rightarrow> Message \<Rightarrow> panic + SignalingServer" where
  "handleJoinRoom s c msg =
     (if RoomID msg = [] then sendError s c err_empty_room_id
      else case GetRoom s (RoomID msg) of
        None \<Rightarrow> sendError s c err_room_not_found
      | Some a \<Rightarrow>
          (let s1 = s\<lparr>client_at := (client_at s)
                       (c := (client_at s c)\<lparr>room := Some a, clientType := ''receiver''\<rparr>)\<rparr>;
               s2 = s1\<lparr>room_at := (room_at s1)
                       (a := (room_at s1 a)\<lparr>clients := insert c (clients (room_at s1 a))\<rparr>)\<rparr>
           in case sendMessage s2 c
                     \<lparr>Type = ''room_joined'', RoomID = RoomID msg, FileID = [], SDP = [],
                      Error = [], ClientType = []\<rparr> of
                Inl e \<Rightarrow> Inl e
              | Inr s3 \<Rightarrow>
                  broadcastToRoom s3 c
                    \<lparr>Type = ''peer_joined'', RoomID = RoomID msg, FileID = [], SDP = [],
                     Error = [], ClientType = []\<rparr> c))"

definition handleOffer :: "SignalingServer \<Rightarrow> client_ptr \<Rightarrow> Message \<Rightarrow> panic + SignalingServer" where
  "handleOffer s c msg =
     (if room (client_at s c) = None then sendError s c err_not_in_room
      else if clientType (client_at s c) \<noteq> ''sender'' then sendError s c err_only_sender
      else broadcastToRoom s c
             \<lparr>Type = ''offer'', RoomID = RoomID msg, FileID = FileID msg, SDP = SDP msg,
              Error = [], ClientType = []\<rparr> c)"

definition handleAnswer :: "SignalingServer \<Rightarrow> client_ptr \<Rightarrow> Message \<Rightarrow> panic + SignalingServer" where
  "handleAnswer s c msg =
     (if room (client_at s c) = None then sendError s c err_not_in_room
      else if clientType (client_at s c) \<noteq> ''receiver'' then sendError s c err_only_receiver
      else broadcastToRoom s c
             \<lparr>Type = ''answer'', RoomID = RoomID msg, FileID = [], SDP = SDP msg,
              Error = [], ClientType = []\<rparr> c)"

text \<open>
  \<^verbatim>\<open>leaveRoom\<close>. \<^verbatim>\<open>len(c.room.clients)\<close> is the number of keys; the registry entry
  removed is the one under the room's own \<^verbatim>\<open>ID\<close>.
\<close>

definition leaveRoom :: "SignalingServer \<Rightarrow> client_ptr \<Rightarrow> panic + SignalingServer" where
  "leaveRoom s c =
     (case room (client_at s c) of
        None \<Rightarrow> Inr s
      | Some a \<Rightarrow>
          (let s1 = s\<lparr>room_at := (room_at s)
                       (a := (room_at s a)\<lparr>clients := clients (room_at s a) - {c}\<rparr>)\<rparr>;
               clientCount = card (clients (room_at s1 a))
           in case (if clientCount = 0 then Inr (RemoveRoom s1 (ID (room_at s1 a)))
                    else broadcastToRoom s1 c
                           \<lparr>Type = ''peer_left'', RoomID = ID (room_at s1 a), FileID = [],
                            SDP = [], Error = [], ClientType = []\<rparr> c) of
                Inl e \<Rightarrow> Inl e
              | Inr s2 \<Rightarrow>
                  Inr (s2\<lparr>client_at := (client_at s2) (c := (client_at s2 c)\<lparr>room := None\<rparr>)\<rparr>)))"

text \<open>
  The dispatch \<^verbatim>\<open>Client.handleMessage\<close>. Its argument is the frame after
  \<^verbatim>\<open>json.Unmarshal\<close>: \<open>None\<close> when the frame does not decode into a \<^verbatim>\<open>Message\<close>.
\<close>

definition Client_handleMessage ::
  "SignalingServer \<Rightarrow> client_ptr \<Rightarrow> Message option \<Rightarrow> panic + SignalingServer" where
  "Client_handleMessage s c data =
     (case data of
        None \<Rightarrow> sendError s c err_invalid_format
      | Some msg \<Rightarrow>
          if Type msg = ''create_room'' then handleCreateRoom s c msg
          else if Type msg = ''join_room'' then handleJoinRoom s c msg
          else if Type msg = ''offer'' then handleOffer s c msg
          else if Type msg = ''answer'' then handleAnswer s c msg
          else sendError s c (err_unknown_type @ Type msg))"

text \<open>
  \<^verbatim>\<open>readPump\<close> dispatches each frame it reads; when the read fails, its deferred function
  (lines 108 to 113) leaves the room. Connections are served concurrently; with the
  handlers run one at a time, the broker sees a sequence of events, each a frame read
  on a connection or the end of a connection.
\<close>

definition readPump_defer :: "SignalingServer \<Rightarrow> client_ptr \<Rightarrow> panic + SignalingServer" where
  "readPump_defer s c = (if room (client_at s c) \<noteq> None then leaveRoom s c else Inr s)"

datatype event = Frame client_ptr "Message option" | ReadFailed client_ptr

fun serve :: "SignalingServer \<Rightarrow> event list \<Rightarrow> panic + SignalingServer" where
  "serve s [] = Inr s"
| "serve s (Frame c data # evs) =
     (case Client_handleMessage s c data of Inl e \<Rightarrow> Inl e | Inr s' \<Rightarrow> serve s' evs)"
| "serve s (ReadFailed c # evs) =
     (case readPump_defer s c of Inl e \<Rightarrow> Inl e | Inr s' \<Rightarrow> serve s' evs)"

text \<open>
  \<^verbatim>\<open>NewSignalingServer\<close> with every connection as \<^verbatim>\<open>handleWebSocket\<close> creates it: no room,
  no role, an empty open channel.
\<close>

definition NewClient :: Client where
  "NewClient = \<lparr>room = None, send = [], send_closed = False, clientType = []\<rparr>"

definition NewSignalingServer :: SignalingServer where
  "NewSignalingServer =
     \<lparr>rooms = Map.empty, room_at = (\<lambda>a. \<lparr>ID = [], clients = {}\<rparr>),
      client_at = (\<lambda>c. NewClient), next_room = 0\<rparr>"

section \<open>Notions used to state the broker's properties\<close>

text \<open>
  What holds of the registry in every state the broker reaches: no room is registered
  under the empty id, and a registered room carries the id it is registered under and
  lies below the next unused address.
\<close>

definition registry_ok :: "SignalingServer \<Rightarrow> bool" where
  "registry_ok s \<longleftrightarrow>
     rooms s [] = None \<and>
     (\<forall>rid a. rooms s rid = Some a \<longrightarrow> ID (room_at s a) = rid \<and> a < next_room s)"

text \<open>The frames clients send, with the fields the handlers read.\<close>

definition create_room :: "string \<Rightarrow> Message" where
  "create_room rid =
     \<lparr>Type = ''create_room'', RoomID = rid, FileID = [], SDP = [], Error = [], ClientType = []\<rparr>"

definition join_room :: "string \<Rightarrow> Message" where
  "join_room rid =
     \<lparr>Type = ''join_room'', RoomID = rid, FileID = [], SDP = [], Error = [], ClientType = []\<rparr>"

text \<open>The messages the broker sends.\<close>

definition error_msg :: "string \<Rightarrow> Message" where
  "error_msg txt =
     \<lparr>Type = ''error'', RoomID = [], FileID = [], SDP = [], Error = txt, ClientType = []\<rparr>"

definition notice :: "string \<Rightarrow> string \<Rightarrow> Message" where
  "notice ty rid =
     \<lparr>Type = ty, RoomID = rid, FileID = [], SDP = [], Error = [], ClientType = []\<rparr>"

text \<open>
  The broker's state after each client of a set has been handed one message, the
  other clients and the registry left as they were: the vocabulary in which replies and
  broadcasts are stated below.
\<close>

definition deliver :: "SignalingServer \<Rightarrow> client_ptr set \<Rightarrow> Message \<Rightarrow> SignalingServer" where
  "deliver s targets msg =
     s\<lparr>client_at := (\<lambda>d. if d \<in> targets then enqueue (client_at s d) msg else client_at s d)\<rparr>"

section \<open>Concrete inputs\<close>

text \<open>
  A receiver environment in which directory creation, file creation, writes and the
  channel all succeed, and \<^verbatim>\<open>json.Unmarshal\<close> decodes the one given text to the given
  metadata and rejects everything else.
\<close>

definition sample_env :: "string \<Rightarrow> FileMetadata \<Rightarrow> recv_env" where
  "sample_env txt md =
     \<lparr>json_Unmarshal = (\<lambda>b. if b = bytes_of txt then Some md else None),
      mkdir_ok = True, create_ok = True, write_ok = True, dc_open = True, dc_send_ok = True\<rparr>"

text \<open>
  A receiver in the payload state that has written the bytes \<open>got\<close> of a file whose
  metadata declared \<open>declared\<close> bytes.
\<close>

definition receiving :: "byte list \<Rightarrow> int \<Rightarrow> WebRTCReceiver" where
  "receiving got declared =
     \<lparr>file_p = Some \<lparr>contents = got, closed = False\<rparr>,
      metadata = Some \<lparr>FileName = ''a'', FileSize = declared\<rparr>, state = 2, metadataLen = 0,
      metadataBuf = [], totalReceived = int (length got), dc_sent = []\<rparr>"

text \<open>
  A sender environment in which the file opens with the given content, every read
  offers two bytes, nothing fails, and \<^verbatim>\<open>json.Marshal\<close> yields the given text.
\<close>

definition sample_send_env :: "byte list \<Rightarrow> string \<Rightarrow> send_env" where
  "sample_send_env content txt =
     \<lparr>os_Open = Some content, json_Marshal = (\<lambda>md. bytes_of txt), read_n = (\<lambda>k. 2),
      read_fails = (\<lambda>k. False), send_ok = (\<lambda>dc m. True)\<rparr>"

text \<open>
  Two broker states for the witnesses. In \<open>one_room\<close> connection 0 has created room
  \<open>r1\<close>; in \<open>two_peers\<close> connection 1 has joined it as well. Both are reached from
  \<open>NewSignalingServer\<close> by these frames (\<open>one_room_reached\<close>, \<open>two_peers_reached\<close>).
\<close>

definition one_room :: SignalingServer where
  "one_room =
     NewSignalingServer
       \<lparr>rooms := (rooms NewSignalingServer)(''r1'' \<mapsto> 0),
        room_at := (room_at NewSignalingServer)(0 := \<lparr>ID = ''r1'', clients = {0}\<rparr>),
        client_at := (client_at NewSignalingServer)
          (0 := \<lparr>room = Some 0, send = [notice ''room_created'' ''r1''], send_closed = False,
                 clientType = ''sender''\<rparr>),
        next_room := 1\<rparr>"

definition two_peers :: SignalingServer where
  "two_peers =
     NewSignalingServer
       \<lparr>rooms := (rooms NewSignalingServer)(''r1'' \<mapsto> 0),
        room_at := (room_at NewSignalingServer)(0 := \<lparr>ID = ''r1'', clients = {0, 1}\<rparr>),
        client_at := (client_at NewSignalingServer)
          (0 := \<lparr>room = Some 0,
                 send = [notice ''room_created'' ''r1'', notice ''peer_joined'' ''r1''],
                 send_closed = False, clientType = ''sender''\<rparr>,
           1 := \<lparr>room = Some 0, send = [notice ''room_joined'' ''r1''], send_closed = False,
                 clientType = ''receiver''\<rparr>),
        next_room := 1\<rparr>"

text \<open>The offer and the answer of the spec's scenario B.\<close>

definition sample_offer :: Message where
  "sample_offer =
     \<lparr>Type = ''offer'', RoomID = ''r1'', FileID = ''f1'', SDP = ''QUJD'', Error = [],
      ClientType = []\<rparr>"

definition sample_answer :: Message where
  "sample_answer =
     \<lparr>Type = ''answer'', RoomID = ''r1'', FileID = [], SDP = ''QUJE'', Error = [],
      ClientType = []\<rparr>"

section \<open>Properties of the length prefix\<close>

lemma Uint32_PutUint32: "Uint32 (PutUint32 v) = v"
  unfolding Uint32_def PutUint32_def
  apply simp
  apply (rule bit_word_eqI)
  apply (auto simp: bit_simps)
  apply (rule ccontr)
  apply (simp add: not_less)
  done

lemma length_PutUint32: "length (PutUint32 v) = 4"
  by (simp add: PutUint32_def)

lemma PutUint32_29: "PutUint32 29 = [0, 0, 0, 29]"
  by (simp add: PutUint32_def)

section \<open>Properties of the receiver-side parser\<close>

subsection \<open>One step of the parser in each state\<close>

lemma hm_state0_short:
  "state r = 0 \<Longrightarrow> length data < 4 \<Longrightarrow> WebRTCReceiver_handleMessage env r data = (r, None)"
  by (subst WebRTCReceiver_handleMessage.simps) simp

lemma hm_state0:
  "state r = 0 \<Longrightarrow> length data \<ge> 4 \<Longrightarrow>
   WebRTCReceiver_handleMessage env r data =
     (let r1 = r\<lparr>metadataLen := Uint32 (take 4 data), metadataBuf := [], state := 1\<rparr>
      in if length data > 4 then WebRTCReceiver_handleMessage env r1 (drop 4 data)
         else (r1, None))"
  by (subst WebRTCReceiver_handleMessage.simps) simp

lemma hm_state1_more:
  "state r = 1 \<Longrightarrow> length (metadataBuf r @ data) < unat (metadataLen r) \<Longrightarrow>
   WebRTCReceiver_handleMessage env r data = (r\<lparr>metadataBuf := metadataBuf r @ data\<rparr>, None)"
  by (subst WebRTCReceiver_handleMessage.simps) simp

lemma hm_state1_done:
  "state r = 1 \<Longrightarrow> unat (metadataLen r) \<le> length (metadataBuf r @ data) \<Longrightarrow>
   json_Unmarshal env (take (unat (metadataLen r)) (metadataBuf r @ data)) = Some md \<Longrightarrow>
   mkdir_ok env \<Longrightarrow> create_ok env \<Longrightarrow>
   WebRTCReceiver_handleMessage env r data =
     (let r3 = r\<lparr>metadataBuf := metadataBuf r @ data, metadata := Some md,
                  file_p := Some \<lparr>contents = [], closed = False\<rparr>, state := 2\<rparr>
      in if length (metadataBuf r @ data) > unat (metadataLen r) then
           WebRTCReceiver_handleMessage env r3
             (drop (unat (metadataLen r)) (metadataBuf r @ data))
         else (r3, None))"
  by (subst WebRTCReceiver_handleMessage.simps) (simp add: Let_def)

lemma hm_state2:
  "state r = 2 \<Longrightarrow> file_p r = Some f \<Longrightarrow> \<not> closed f \<Longrightarrow> write_ok env \<Longrightarrow>
   WebRTCReceiver_handleMessage env r data =
     (let r1 = r\<lparr>file_p := Some (f\<lparr>contents := contents f @ data\<rparr>),
                  totalReceived := totalReceived r + int (length data)\<rparr>
      in if (\<exists>md. metadata r = Some md \<and> 0 < FileSize md \<and> FileSize md \<le> totalReceived r1)
         then (complete env r1, None) else (r1, None))"
  by (subst WebRTCReceiver_handleMessage.simps) (auto simp: Let_def split: option.splits)

lemma hm_state2_closed:
  "state r = 2 \<Longrightarrow> file_p r = Some f \<Longrightarrow> closed f \<Longrightarrow>
   WebRTCReceiver_handleMessage env r data = (r, Some WriteError)"
  by (subst WebRTCReceiver_handleMessage.simps) simp


subsection \<open>The round trip over any cut that keeps the prefix whole\<close>

text \<open>Where a message boundary falls in a stream of two parts.\<close>

lemma split_short:
  "xs @ ys = us @ vs \<Longrightarrow> length xs \<le> length us \<Longrightarrow>
   xs = take (length xs) us \<and> ys = drop (length xs) us @ vs"
  by (simp add: append_eq_conv_conj)

lemma split_long:
  "xs @ ys = us @ vs \<Longrightarrow> length us \<le> length xs \<Longrightarrow>
   us = take (length us) xs \<and> vs = drop (length us) xs @ ys"
  using split_short [of us vs xs ys] by simp

lemma OnMessage_refeed:
  "WebRTCReceiver_handleMessage env r m = WebRTCReceiver_handleMessage env r' m' \<Longrightarrow>
   OnMessage env r (m # ms) = OnMessage env r' (m' # ms)"
  by simp

text \<open>
  The payload state over a list of messages, by induction on the list: the message that
  completes the declared size is the last one, so no write meets a closed file.
\<close>

lemma payload_phase:
  assumes "write_ok env"
  shows "state r = 2 \<Longrightarrow> file_p r = Some f \<Longrightarrow> \<not> closed f \<Longrightarrow> metadata r = Some md \<Longrightarrow>
    0 \<le> totalReceived r \<Longrightarrow>
    FileSize md = totalReceived r + int (length (concat ms)) \<Longrightarrow> [] \<notin> set ms \<Longrightarrow>
    \<exists>r'. OnMessage env r ms = (r', [])
       \<and> map_option contents (file_p r') = Some (contents f @ concat ms)
       \<and> totalReceived r' = totalReceived r + int (length (concat ms))"
proof (induction ms arbitrary: r f)
  case Nil
  then show ?case by simp
next
  case (Cons m ms)
  from Cons.prems have m: "m \<noteq> []" and ms: "[] \<notin> set ms" by auto
  define r1 where "r1 = r\<lparr>file_p := Some (f\<lparr>contents := contents f @ m\<rparr>),
                  totalReceived := totalReceived r + int (length m)\<rparr>"
  show ?case
  proof (cases "concat ms = []")
    case True
    with ms have e: "ms = []" by (cases ms) auto
    from m have "0 < int (length m)" by simp
    with Cons.prems(5) have pos: "0 < totalReceived r + int (length m)" by linarith
    have "WebRTCReceiver_handleMessage env r m = (complete env r1, None)"
      using Cons.prems assms True pos by (simp add: hm_state2 r1_def Let_def)
    then show ?thesis
      using e by (simp add: complete_def r1_def Let_def)
  next
    case False
    have step: "WebRTCReceiver_handleMessage env r m = (r1, None)"
      using Cons.prems assms False by (auto simp: hm_state2 r1_def Let_def)
    have "\<exists>r'. OnMessage env r1 ms = (r', [])
       \<and> map_option contents (file_p r') = Some (contents (f\<lparr>contents := contents f @ m\<rparr>) @ concat ms)
       \<and> totalReceived r' = totalReceived r1 + int (length (concat ms))"
      using Cons.prems ms by (intro Cons.IH) (simp_all add: r1_def)
    with step show ?thesis by (auto simp: r1_def)
  qed
qed

text \<open>
  The metadata state over a list of messages: either the message leaves the metadata
  incomplete, or it completes it and its surplus opens the payload.
\<close>

lemma metadata_phase:
  assumes env: "mkdir_ok env" "create_ok env" "write_ok env"
    and size: "FileSize md = int (length payload)"
  shows "state r = 1 \<Longrightarrow> totalReceived r = 0 \<Longrightarrow> rest \<noteq> [] \<Longrightarrow>
    unat (metadataLen r) = length (metadataBuf r) + length rest \<Longrightarrow>
    json_Unmarshal env (metadataBuf r @ rest) = Some md \<Longrightarrow>
    concat ms = rest @ payload \<Longrightarrow> [] \<notin> set ms \<Longrightarrow>
    \<exists>r'. OnMessage env r ms = (r', [])
       \<and> map_option contents (file_p r') = Some payload
       \<and> totalReceived r' = int (length payload)"
proof (induction ms arbitrary: r rest)
  case Nil
  then show ?case by simp
next
  case (Cons m ms)
  from Cons.prems have m: "m \<noteq> []" and ms: "[] \<notin> set ms" by auto
  from Cons.prems have cat: "m @ concat ms = rest @ payload" by simp
  show ?case
  proof (cases "length m < length rest")
    case True
    with split_short [OF cat] have mr: "m = take (length m) rest"
      and cms: "concat ms = drop (length m) rest @ payload"
      by simp_all
    define r1 where "r1 = r\<lparr>metadataBuf := metadataBuf r @ m\<rparr>"
    have step: "WebRTCReceiver_handleMessage env r m = (r1, None)"
      using Cons.prems True by (simp add: hm_state1_more r1_def)
    have "metadataBuf r @ m @ drop (length m) rest = metadataBuf r @ rest"
      using mr by (metis append_take_drop_id)
    then have "\<exists>r'. OnMessage env r1 ms = (r', [])
       \<and> map_option contents (file_p r') = Some payload
       \<and> totalReceived r' = int (length payload)"
      using Cons.prems True ms cms
      by (intro Cons.IH [where rest = "drop (length m) rest"]) (simp_all add: r1_def)
    with step show ?thesis by auto
  next
    case False
    with split_long [OF cat] have rm: "rest = take (length rest) m"
      and pl: "payload = drop (length rest) m @ concat ms"
      by simp_all
    define p1 where "p1 = drop (length rest) m"
    have m_eq: "m = rest @ p1" using rm by (metis append_take_drop_id p1_def)
    define r3 where "r3 = r\<lparr>metadataBuf := metadataBuf r @ m, metadata := Some md,
                  file_p := Some \<lparr>contents = [], closed = False\<rparr>, state := 2\<rparr>"
    have tk: "take (unat (metadataLen r)) (metadataBuf r @ m) = metadataBuf r @ rest"
      using Cons.prems(4) by (simp add: m_eq)
    have step: "WebRTCReceiver_handleMessage env r m =
        (if p1 = [] then (r3, None) else WebRTCReceiver_handleMessage env r3 p1)"
      using Cons.prems env tk
      by (simp add: hm_state1_done [where md = md] r3_def Let_def m_eq)
    have r3: "state r3 = 2" "file_p r3 = Some \<lparr>contents = [], closed = False\<rparr>"
      "metadata r3 = Some md" "totalReceived r3 = 0"
      using Cons.prems by (simp_all add: r3_def)
    show ?thesis
    proof (cases "p1 = []")
      case True
      with step have "OnMessage env r (m # ms) = OnMessage env r3 ms" by simp
      moreover have "\<exists>r'. OnMessage env r3 ms = (r', [])
         \<and> map_option contents (file_p r') = Some (contents \<lparr>contents = [], closed = False\<rparr> @ concat ms)
         \<and> totalReceived r' = totalReceived r3 + int (length (concat ms))"
        using r3 ms size pl True
        by (intro payload_phase [OF env(3), where md = md]) (simp_all add: p1_def)
      ultimately show ?thesis using pl True r3 by (auto simp: p1_def)
    next
      case False
      with step have "OnMessage env r (m # ms) = OnMessage env r3 (p1 # ms)" by simp
      moreover have "\<exists>r'. OnMessage env r3 (p1 # ms) = (r', [])
         \<and> map_option contents (file_p r') = Some (contents \<lparr>contents = [], closed = False\<rparr> @ concat (p1 # ms))
         \<and> totalReceived r' = totalReceived r3 + int (length (concat (p1 # ms)))"
        using r3 ms size pl False
        by (intro payload_phase [OF env(3), where md = md]) (simp_all add: p1_def)
      ultimately show ?thesis using pl r3 by (auto simp: p1_def)
    qed
  qed
qed

text \<open>
  The round trip when the first message holds the whole length prefix: for every payload,
  every non-empty metadata text shorter than \<open>2 ^ 32\<close> bytes that decodes to metadata
  declaring the payload's length, and every cut of prefix, metadata and payload into
  non-empty messages of which the first has at least four bytes, the receiver reports no
  error, the file holds exactly the payload and the count is the payload's length. So
  the metadata and the payload may be cut anywhere; only a cut inside the prefix is
  lost, as the next theorem shows.
\<close>

lemma roundtrip_when_prefix_is_whole:
  assumes env: "mkdir_ok env" "create_ok env" "write_ok env"
    and dec: "json_Unmarshal env meta = Some md" and size: "FileSize md = int (length payload)"
    and meta: "meta \<noteq> []" "length meta < 2 ^ 32"
    and cat: "concat msgs = PutUint32 (of_nat (length meta)) @ meta @ payload"
    and ne: "[] \<notin> set msgs" and first: "msgs \<noteq> []" "4 \<le> length (hd msgs)"
  shows "\<exists>r'. OnMessage env NewWebRTCReceiver msgs = (r', [])
       \<and> map_option contents (file_p r') = Some payload
       \<and> totalReceived r' = int (length payload)"
proof -
  from first obtain m ms where msgs: "msgs = m # ms" and m4: "4 \<le> length m" by (cases msgs) auto
  from cat msgs have c: "m @ concat ms = PutUint32 (of_nat (length meta)) @ meta @ payload" by simp
  with m4 split_long [OF c] have pre: "take 4 m = PutUint32 (of_nat (length meta))"
    and rest: "drop 4 m @ concat ms = meta @ payload"
    by (simp_all add: length_PutUint32)
  have len: "unat (of_nat (length meta) :: uint32) = length meta"
    using meta(2) by (simp add: unat_of_nat)
  define r1 where "r1 = NewWebRTCReceiver\<lparr>metadataLen := of_nat (length meta), metadataBuf := [], state := 1\<rparr>"
  have r1: "state r1 = 1" "totalReceived r1 = 0" "unat (metadataLen r1) = length (metadataBuf r1) + length meta"
    "json_Unmarshal env (metadataBuf r1 @ meta) = Some md"
    using len dec by (simp_all add: r1_def NewWebRTCReceiver_def)
  have step: "WebRTCReceiver_handleMessage env NewWebRTCReceiver m =
      (if length m > 4 then WebRTCReceiver_handleMessage env r1 (drop 4 m) else (r1, None))"
    using m4 pre by (simp add: hm_state0 NewWebRTCReceiver_def Uint32_PutUint32 r1_def)
  show ?thesis
  proof (cases "length m > 4")
    case True
    with step have "OnMessage env NewWebRTCReceiver msgs = OnMessage env r1 (drop 4 m # ms)"
      by (simp add: msgs)
    moreover have "\<exists>r'. OnMessage env r1 (drop 4 m # ms) = (r', [])
       \<and> map_option contents (file_p r') = Some payload
       \<and> totalReceived r' = int (length payload)"
      using r1 meta(1) rest ne True
      by (intro metadata_phase [OF env size, where rest = meta]) (simp_all add: msgs)
    ultimately show ?thesis by simp
  next
    case False
    with m4 have "drop 4 m = []" by simp
    with rest have rest': "concat ms = meta @ payload" by simp
    from False step have "OnMessage env NewWebRTCReceiver msgs = OnMessage env r1 ms"
      by (simp add: msgs)
    moreover have "\<exists>r'. OnMessage env r1 ms = (r', [])
       \<and> map_option contents (file_p r') = Some payload
       \<and> totalReceived r' = int (length payload)"
      using r1 meta(1) rest' ne
      by (intro metadata_phase [OF env size, where rest = meta]) (simp_all add: msgs)
    ultimately show ?thesis by simp
  qed
qed

subsection \<open>C1: a length prefix split across two messages\<close>

text \<open>
  C1 says that every partition of prefix, metadata and payload into messages reproduces
  the payload, also when the four prefix bytes are split. The stream here is the prefix
  \<open>0 0 0 29\<close>, a metadata text of 29 bytes declaring 2 bytes, and the payload \<open>1 2\<close>.
  Cut at the ends of prefix and metadata, it is received in full: the file holds
  \<open>1 2\<close>, the count is 2, the acknowledgment is sent. Cut after the second prefix byte,
  the same stream is lost: state 0 drops a message shorter than four bytes without
  keeping it, the next message's first four bytes \<open>0 29 123 34\<close> are read as the length
  1932066, and the parser waits in state 1 with no file and a count of 0.
\<close>

theorem split_length_prefix_is_dropped:
  \<open>OnMessage (sample_env ''{"fileName":"a","fileSize":2}'' \<lparr>FileName = ''a'', FileSize = 2\<rparr>)
      NewWebRTCReceiver
      [PutUint32 29, bytes_of ''{"fileName":"a","fileSize":2}'', [1, 2]] =
     (\<lparr>file_p = Some \<lparr>contents = [1, 2], closed = True\<rparr>,
       metadata = Some \<lparr>FileName = ''a'', FileSize = 2\<rparr>, state = 2, metadataLen = 29,
       metadataBuf = bytes_of ''{"fileName":"a","fileSize":2}'', totalReceived = 2,
       dc_sent = [ack_json]\<rparr>, [])
   \<and> OnMessage (sample_env ''{"fileName":"a","fileSize":2}'' \<lparr>FileName = ''a'', FileSize = 2\<rparr>)
      NewWebRTCReceiver
      [take 2 (PutUint32 29),
       drop 2 (PutUint32 29) @ bytes_of ''{"fileName":"a","fileSize":2}'' @ [1, 2]] =
     (\<lparr>file_p = None, metadata = None, state = 1, metadataLen = 1932066,
       metadataBuf = drop 2 (bytes_of ''{"fileName":"a","fileSize":2}'') @ [1, 2],
       totalReceived = 0, dc_sent = []\<rparr>, [])\<close>
  apply (rule conjI)
   apply (simp add: PutUint32_29 NewWebRTCReceiver_def hm_state0 Uint32_def)
   apply (simp add: hm_state1_done sample_env_def bytes_of_def)
   apply (simp add: hm_state2 complete_def)
  apply (simp add: PutUint32_29 NewWebRTCReceiver_def hm_state0_short hm_state0 Uint32_def)
  apply (simp add: hm_state1_more bytes_of_def)
  done

subsection \<open>C8: scenario D\<close>

text \<open>
  C8: a metadata body of 37 bytes arrives in two messages, the first with the four
  prefix bytes and the first 10 metadata bytes \<open>m1\<close>, the second with the other 27
  metadata bytes \<open>m2\<close> and the first payload chunk \<open>p\<close>. When the 37 bytes decode and the
  destination can be created and written, the parser starts in state 0, is in state 1
  after the first message with the length 37 and exactly \<open>m1\<close> buffered, and is in state 2
  after the second; the decoder was given exactly \<open>m1 @ m2\<close>, and the file holds exactly
  \<open>p\<close> with a count of \<open>length p\<close>.
\<close>

theorem scenario_D_two_messages:
  assumes "length m1 = 10" and "length m2 = 27"
    and "json_Unmarshal env (m1 @ m2) = Some md"
    and "mkdir_ok env" and "create_ok env" and "write_ok env"
  shows "\<exists>r1 r2.
      state NewWebRTCReceiver = 0
    \<and> WebRTCReceiver_handleMessage env NewWebRTCReceiver (PutUint32 37 @ m1) = (r1, None)
    \<and> state r1 = 1 \<and> metadataLen r1 = 37 \<and> metadataBuf r1 = m1 \<and> file_p r1 = None
    \<and> totalReceived r1 = 0
    \<and> WebRTCReceiver_handleMessage env r1 (m2 @ p) = (r2, None)
    \<and> state r2 = 2 \<and> metadata r2 = Some md
    \<and> map_option contents (file_p r2) = Some p \<and> totalReceived r2 = int (length p)"
proof -
  define r0 where "r0 = NewWebRTCReceiver"
  define r1 where "r1 = r0\<lparr>metadataLen := 37, metadataBuf := m1, state := 1\<rparr>"
  define r3 where "r3 = r1\<lparr>metadataBuf := m1 @ m2 @ p, metadata := Some md,
                  file_p := Some \<lparr>contents = [], closed = False\<rparr>, state := 2\<rparr>"
  have s0: "state r0 = 0" by (simp add: r0_def NewWebRTCReceiver_def)
  have step1: "WebRTCReceiver_handleMessage env r0 (PutUint32 37 @ m1) = (r1, None)"
    using assms(1) s0
    by (simp add: hm_state0 length_PutUint32 Uint32_PutUint32 hm_state1_more r1_def r0_def
        NewWebRTCReceiver_def)
  have step2: "WebRTCReceiver_handleMessage env r1 (m2 @ p) =
     (if p = [] then (r3, None) else WebRTCReceiver_handleMessage env r3 p)"
    using assms by (simp add: hm_state1_done r1_def r3_def)
  have step3: "\<exists>r2. WebRTCReceiver_handleMessage env r3 p = (r2, None) \<and> state r2 = 2
      \<and> metadata r2 = Some md \<and> map_option contents (file_p r2) = Some p
      \<and> totalReceived r2 = int (length p)" if "p \<noteq> []"
    using assms(6)
    by (simp add: hm_state2 r3_def r1_def r0_def NewWebRTCReceiver_def complete_def Let_def)
  show ?thesis
  proof (cases "p = []")
    case True
    with step1 step2 show ?thesis
      by (auto simp: r1_def r3_def r0_def NewWebRTCReceiver_def)
  next
    case False
    from step3 [OF False] obtain r2 where
      "WebRTCReceiver_handleMessage env r3 p = (r2, None)" "state r2 = 2"
      "metadata r2 = Some md" "map_option contents (file_p r2) = Some p"
      "totalReceived r2 = int (length p)"
      by blast
    with step1 step2 False show ?thesis
      by (auto simp: r1_def r0_def NewWebRTCReceiver_def)
  qed
qed

text \<open>
  The scenario at a metadata text of 37 bytes, cut after its tenth byte, with the
  payload chunk \<open>hello\<close>.
\<close>

theorem scenario_D_two_messages_witness:
  \<open>length (take 10 (bytes_of ''{"fileName":"notes.txt","fileSize":5}'')) = 10
   \<and> length (drop 10 (bytes_of ''{"fileName":"notes.txt","fileSize":5}'')) = 27
   \<and> (\<exists>r1 r2.
        WebRTCReceiver_handleMessage
          (sample_env ''{"fileName":"notes.txt","fileSize":5}''
             \<lparr>FileName = ''notes.txt'', FileSize = 5\<rparr>)
          NewWebRTCReceiver
          (PutUint32 37 @ take 10 (bytes_of ''{"fileName":"notes.txt","fileSize":5}''))
        = (r1, None)
      \<and> state r1 = 1
      \<and> WebRTCReceiver_handleMessage
          (sample_env ''{"fileName":"notes.txt","fileSize":5}''
             \<lparr>FileName = ''notes.txt'', FileSize = 5\<rparr>)
          r1
          (drop 10 (bytes_of ''{"fileName":"notes.txt","fileSize":5}'')
             @ [104, 101, 108, 108, 111])
        = (r2, None)
      \<and> state r2 = 2
      \<and> map_option contents (file_p r2) = Some [104, 101, 108, 108, 111]
      \<and> totalReceived r2 = 5)\<close>
proof -
  let ?txt = \<open>''{"fileName":"notes.txt","fileSize":5}''\<close>
  let ?md = "\<lparr>FileName = ''notes.txt'', FileSize = 5\<rparr>"
  have l1: "length (take 10 (bytes_of ?txt)) = 10" by (simp add: bytes_of_def)
  have l2: "length (drop 10 (bytes_of ?txt)) = 27" by (simp add: bytes_of_def)
  have dec: "json_Unmarshal (sample_env ?txt ?md)
      (take 10 (bytes_of ?txt) @ drop 10 (bytes_of ?txt)) = Some ?md"
    by (simp add: sample_env_def)
  have ok: "mkdir_ok (sample_env ?txt ?md)" "create_ok (sample_env ?txt ?md)"
      "write_ok (sample_env ?txt ?md)"
    by (simp_all add: sample_env_def)
  from scenario_D_two_messages [OF l1 l2 dec ok, of "[104, 101, 108, 108, 111]"] l1 l2
  show ?thesis by auto
qed

subsection \<open>C9: completion and the acknowledgment\<close>

text \<open>
  C9 says that the receiver closes the file and acknowledges whenever the count reaches
  the declared size. With a declared size of 0 it does not: after the prefix, the
  metadata of an empty file and one more (empty) message, the count 0 equals the declared
  size 0, the file is still open and nothing was sent on the channel.
\<close>

theorem declared_size_zero_is_never_acknowledged:
  \<open>OnMessage (sample_env ''{"fileName":"e","fileSize":0}'' \<lparr>FileName = ''e'', FileSize = 0\<rparr>)
      NewWebRTCReceiver
      [PutUint32 29, bytes_of ''{"fileName":"e","fileSize":0}'', []] =
     (\<lparr>file_p = Some \<lparr>contents = [], closed = False\<rparr>,
       metadata = Some \<lparr>FileName = ''e'', FileSize = 0\<rparr>, state = 2, metadataLen = 29,
       metadataBuf = bytes_of ''{"fileName":"e","fileSize":0}'', totalReceived = 0,
       dc_sent = []\<rparr>, [])\<close>
  apply (simp add: PutUint32_29 NewWebRTCReceiver_def hm_state0 Uint32_def)
  apply (simp add: hm_state1_done sample_env_def bytes_of_def)
  apply (simp add: hm_state2 complete_def)
  done

text \<open>
  C9 as amended: in the payload state, with the destination open and writable. When the
  declared size is above 0, the message that brings the count to the declared size or
  beyond is written in full, the file is closed, and the acknowledgment \<open>ack_json\<close> is
  appended to the channel once when the channel is open and the send succeeds (not at
  all otherwise); every later message finds the file closed, fails with a write error
  and changes nothing, so no second acknowledgment follows. When the declared size is 0
  or less, the message is written, the file stays open and nothing is sent.
\<close>

theorem completion_closes_and_acknowledges_once:
  assumes "state r = 2" and "file_p r = Some f" and "\<not> closed f" and "write_ok env"
    and "metadata r = Some md"
  shows "(0 < FileSize md \<and> FileSize md \<le> totalReceived r + int (length data) \<longrightarrow>
          (\<exists>r'. WebRTCReceiver_handleMessage env r data = (r', None)
             \<and> file_p r' = Some \<lparr>contents = contents f @ data, closed = True\<rparr>
             \<and> totalReceived r' = totalReceived r + int (length data)
             \<and> dc_sent r' =
                 (if dc_open env \<and> dc_send_ok env then dc_sent r @ [ack_json] else dc_sent r)
             \<and> (\<forall>env' data'.
                   WebRTCReceiver_handleMessage env' r' data' = (r', Some WriteError))))
       \<and> (FileSize md \<le> 0 \<longrightarrow>
          WebRTCReceiver_handleMessage env r data =
            (r\<lparr>file_p := Some \<lparr>contents = contents f @ data, closed = False\<rparr>,
               totalReceived := totalReceived r + int (length data)\<rparr>, None))"
proof (intro conjI impI)
  assume "0 < FileSize md \<and> FileSize md \<le> totalReceived r + int (length data)"
  then have big: "0 < FileSize md" "FileSize md \<le> totalReceived r + int (length data)"
    by simp_all
  define r1 where "r1 = r\<lparr>file_p := Some (f\<lparr>contents := contents f @ data\<rparr>),
                  totalReceived := totalReceived r + int (length data)\<rparr>"
  have step: "WebRTCReceiver_handleMessage env r data = (complete env r1, None)"
    using assms big by (simp add: hm_state2 r1_def)
  have f': "file_p (complete env r1) = Some \<lparr>contents = contents f @ data, closed = True\<rparr>"
    by (simp add: complete_def r1_def Let_def)
  have st: "state (complete env r1) = 2"
    using assms(1) by (simp add: complete_def r1_def Let_def)
  have tot: "totalReceived (complete env r1) = totalReceived r + int (length data)"
    by (simp add: complete_def r1_def Let_def)
  have ack: "dc_sent (complete env r1) =
      (if dc_open env \<and> dc_send_ok env then dc_sent r @ [ack_json] else dc_sent r)"
    by (simp add: complete_def r1_def Let_def)
  have later: "WebRTCReceiver_handleMessage env' (complete env r1) data' =
      (complete env r1, Some WriteError)" for env' data'
    using st f' by (simp add: hm_state2_closed)
  from step f' tot ack later
  show "\<exists>r'. WebRTCReceiver_handleMessage env r data = (r', None)
     \<and> file_p r' = Some \<lparr>contents = contents f @ data, closed = True\<rparr>
     \<and> totalReceived r' = totalReceived r + int (length data)
     \<and> dc_sent r' = (if dc_open env \<and> dc_send_ok env then dc_sent r @ [ack_json] else dc_sent r)
     \<and> (\<forall>env' data'. WebRTCReceiver_handleMessage env' r' data' = (r', Some WriteError))"
    by blast
next
  assume "FileSize md \<le> 0"
  with assms show "WebRTCReceiver_handleMessage env r data =
      (r\<lparr>file_p := Some \<lparr>contents = contents f @ data, closed = False\<rparr>,
         totalReceived := totalReceived r + int (length data)\<rparr>, None)"
    by (simp add: hm_state2)
qed

text \<open>
  One byte written of a file declared 2 bytes long, and the second byte arrives; and a
  file declared 0 bytes long to which a byte arrives.
\<close>

theorem completion_closes_and_acknowledges_once_witness:
  "state (receiving [1] 2) = 2
   \<and> file_p (receiving [1] 2) = Some \<lparr>contents = [1], closed = False\<rparr>
   \<and> metadata (receiving [1] 2) = Some \<lparr>FileName = ''a'', FileSize = 2\<rparr>
   \<and> (\<exists>r'. WebRTCReceiver_handleMessage (sample_env [] \<lparr>FileName = ''a'', FileSize = 2\<rparr>)
              (receiving [1] 2) [2] = (r', None)
        \<and> file_p r' = Some \<lparr>contents = [1, 2], closed = True\<rparr>
        \<and> totalReceived r' = 2
        \<and> dc_sent r' = [ack_json]
        \<and> (\<forall>env' data'. WebRTCReceiver_handleMessage env' r' data' = (r', Some WriteError)))
   \<and> WebRTCReceiver_handleMessage (sample_env [] \<lparr>FileName = ''a'', FileSize = 0\<rparr>)
        (receiving [] 0) [9] =
        ((receiving [] 0)\<lparr>file_p := Some \<lparr>contents = [9], closed = False\<rparr>,
                          totalReceived := 1\<rparr>, None)"
  using completion_closes_and_acknowledges_once
    [of "receiving [1] 2" "\<lparr>contents = [1], closed = False\<rparr>"
        "sample_env [] \<lparr>FileName = ''a'', FileSize = 2\<rparr>"
        "\<lparr>FileName = ''a'', FileSize = 2\<rparr>" "[2]"]
    completion_closes_and_acknowledges_once
    [of "receiving [] 0" "\<lparr>contents = [], closed = False\<rparr>"
        "sample_env [] \<lparr>FileName = ''a'', FileSize = 0\<rparr>"
        "\<lparr>FileName = ''a'', FileSize = 0\<rparr>" "[9]"]
  by (simp add: receiving_def sample_env_def)

subsection \<open>C10: no truncation at the declared size\<close>



section \<open>Properties of the sender\<close>

text \<open>
  The inner loop, when every send succeeds: started at \<open>offset\<close>, it appends to the
  channel chunks that together are the bytes \<open>offset\<close> to \<open>n\<close> of the buffer, none
  longer than the chunk size. By induction on the bytes left.
\<close>

lemma send_chunks_sends_the_buffer:
  assumes ok: "\<forall>dc m. send_ok env dc m"
  shows "offset \<le> n \<Longrightarrow>
    \<exists>chunks. send_chunks env buffer n offset dc = (dc @ chunks, True)
      \<and> concat chunks = take (n - offset) (drop offset buffer)
      \<and> (\<forall>c\<in>set chunks. length c \<le> maxChunkSize)"
proof (induction "n - offset" arbitrary: offset dc rule: less_induct)
  case less
  show ?case
  proof (cases "offset < n")
    case False
    with less.prems show ?thesis
      by (subst send_chunks.simps) (simp add: Let_def)
  next
    case True
    define chunkSize where "chunkSize = (if n > maxChunkSize then maxChunkSize else n)"
    define chunk where "chunk = (if offset + chunkSize > n then n - offset else chunkSize)"
    have pos: "0 < chunk" "offset + chunk \<le> n" "chunk \<le> maxChunkSize"
      using True by (auto simp: chunk_def chunkSize_def maxChunkSize_def)
    have unfold: "send_chunks env buffer n offset dc =
        send_chunks env buffer n (offset + chunk) (dc @ [take chunk (drop offset buffer)])"
      using True ok
      by (subst send_chunks.simps) (simp add: Let_def chunk_def chunkSize_def dc_Send_def)
    from pos have "n - (offset + chunk) < n - offset" using True by arith
    from less.hyps [OF this pos(2), of "dc @ [take chunk (drop offset buffer)]"]
    obtain chunks where c:
      "send_chunks env buffer n (offset + chunk) (dc @ [take chunk (drop offset buffer)]) =
         ((dc @ [take chunk (drop offset buffer)]) @ chunks, True)"
      "concat chunks = take (n - (offset + chunk)) (drop (offset + chunk) buffer)"
      "\<forall>c\<in>set chunks. length c \<le> maxChunkSize"
      by blast
    have "take (n - offset) (drop offset buffer) =
        take chunk (drop offset buffer) @
        take (n - (offset + chunk)) (drop (offset + chunk) buffer)"
    proof -
      have "n - offset = chunk + (n - (offset + chunk))" using pos by arith
      then have "take (n - offset) (drop offset buffer) =
          take (chunk + (n - (offset + chunk))) (drop offset buffer)" by simp
      also have "\<dots> = take chunk (drop offset buffer) @
          take (n - (offset + chunk)) (drop chunk (drop offset buffer))"
        by (rule take_add)
      finally show ?thesis by (simp add: add.commute)
    qed
    with c unfold pos(3) show ?thesis
      by (intro exI [of _ "take chunk (drop offset buffer) # chunks"]) simp
  qed
qed

text \<open>
  The outer loop, when no read and no send fails: it ends normally, and the chunks it
  appends are together the unread rest of the file. By induction on the length of the
  rest; a read returns at least one byte while bytes remain.
\<close>

lemma read_loop_sends_the_file:
  assumes ok: "\<forall>dc m. send_ok env dc m" and rd: "\<forall>k. \<not> read_fails env k"
  shows "\<exists>chunks. read_loop env rest dc = (dc @ chunks, Sent)
      \<and> concat chunks = rest \<and> (\<forall>c\<in>set chunks. length c \<le> maxChunkSize)"
proof (induction "length rest" arbitrary: rest dc rule: less_induct)
  case less
  show ?case
  proof (cases "rest = []")
    case True
    then show ?thesis
      by (subst read_loop.simps) (simp add: file_Read_def)
  next
    case False
    define n where "n = max 1 (min (read_n env (length rest)) (min maxChunkSize (length rest)))"
    have n: "0 < n" "n \<le> length rest" "n \<le> maxChunkSize"
      using False by (auto simp: n_def maxChunkSize_def Suc_le_eq)
    have rdn: "file_Read env rest = (n, NoErr)"
      using False rd by (simp add: file_Read_def n_def)
    from send_chunks_sends_the_buffer [OF ok, of 0 n "take n rest" dc]
    obtain c1 where c1: "send_chunks env (take n rest) n 0 dc = (dc @ c1, True)"
      "concat c1 = take n rest" "\<forall>c\<in>set c1. length c \<le> maxChunkSize"
      using n by auto
    have unfold: "read_loop env rest dc = read_loop env (drop n rest) (dc @ c1)"
      using n rdn c1(1) by (subst read_loop.simps) simp
    have "length (drop n rest) < length rest" using n by simp
    from less.hyps [OF this, of "dc @ c1"]
    obtain c2 where c2: "read_loop env (drop n rest) (dc @ c1) = ((dc @ c1) @ c2, Sent)"
      "concat c2 = drop n rest" "\<forall>c\<in>set c2. length c \<le> maxChunkSize"
      by blast
    with c1 unfold show ?thesis
      by (intro exI [of _ "c1 @ c2"]) auto
  qed
qed

subsection \<open>C7: what the sender puts on the channel\<close>

text \<open>
  C7: when the file opens and no read and no send fails, \<^verbatim>\<open>sendFile\<close> returns normally
  and the channel received, in this order: the four bytes of the big-endian length of
  the serialized metadata (which decode to that length as a \<^verbatim>\<open>uint32\<close>), the serialized
  metadata, and then payload messages whose concatenation in send order is the file's
  content and none of which is longer than \<open>32 * 1024\<close> bytes.
\<close>

theorem sendFile_sends_prefix_metadata_and_chunks_in_order:
  assumes "os_Open env = Some content"
    and "\<forall>dc m. send_ok env dc m" and "\<forall>k. \<not> read_fails env k"
    and "meta = json_Marshal env \<lparr>FileName = fileName, FileSize = fileSize\<rparr>"
  shows "\<exists>chunks.
      sendFile env fileName fileSize =
        (PutUint32 (of_nat (length meta)) # meta # chunks, Sent)
    \<and> length (PutUint32 (of_nat (length meta))) = 4
    \<and> Uint32 (PutUint32 (of_nat (length meta))) = of_nat (length meta)
    \<and> concat chunks = content
    \<and> (\<forall>c\<in>set chunks. length c \<le> 32 * 1024)"
proof -
  let ?dc = "[PutUint32 (of_nat (length meta)), meta]"
  from read_loop_sends_the_file [OF assms(2,3), of content ?dc]
  obtain chunks where c: "read_loop env content ?dc = (?dc @ chunks, Sent)"
    "concat chunks = content" "\<forall>c\<in>set chunks. length c \<le> maxChunkSize"
    by blast
  have "sendFile env fileName fileSize = read_loop env content ?dc"
    using assms(1,2,4) by (simp add: sendFile_def dc_Send_def Let_def)
  with c show ?thesis
    by (auto simp: maxChunkSize_def length_PutUint32 Uint32_PutUint32)
qed

text \<open>
  A file of three bytes, read two bytes at a time, with a metadata text of 29 bytes.
\<close>

theorem sendFile_sends_prefix_metadata_and_chunks_in_order_witness:
  \<open>os_Open (sample_send_env [1, 2, 3] ''{"fileName":"a","fileSize":3}'') = Some [1, 2, 3]
   \<and> (\<exists>chunks.
        sendFile (sample_send_env [1, 2, 3] ''{"fileName":"a","fileSize":3}'') ''a'' 3 =
          ([0, 0, 0, 29] # bytes_of ''{"fileName":"a","fileSize":3}'' # chunks, Sent)
      \<and> concat chunks = [1, 2, 3]
      \<and> (\<forall>c\<in>set chunks. length c \<le> 32 * 1024))\<close>
proof -
  let ?txt = \<open>''{"fileName":"a","fileSize":3}''\<close>
  let ?env = "sample_send_env [1, 2, 3] ?txt"
  have h: "os_Open ?env = Some [1, 2, 3]" "\<forall>dc m. send_ok ?env dc m"
    "\<forall>k. \<not> read_fails ?env k"
    "bytes_of ?txt = json_Marshal ?env \<lparr>FileName = ''a'', FileSize = 3\<rparr>"
    by (simp_all add: sample_send_env_def)
  have l: "PutUint32 (of_nat (length (bytes_of ?txt))) = [0, 0, 0, 29]"
    by (simp add: bytes_of_def PutUint32_def)
  from sendFile_sends_prefix_metadata_and_chunks_in_order [OF h] h(1)
  show ?thesis unfolding l by blast
qed

section \<open>Properties of the signaling broker\<close>

subsection \<open>Channels, replies and broadcasts\<close>

text \<open>
  Handing a message to a client whose channel is open always changes that client: the
  queue grows, or the full channel is closed.
\<close>

lemma enqueue_changes: "\<not> send_closed cl \<Longrightarrow> enqueue cl msg \<noteq> cl"
proof
  assume a: "\<not> send_closed cl" and e: "enqueue cl msg = cl"
  show False
  proof (cases "length (send cl) < 256")
    case True
    with e have "cl\<lparr>send := send cl @ [msg]\<rparr> = cl" by (simp add: enqueue_def)
    then have "send (cl\<lparr>send := send cl @ [msg]\<rparr>) = send cl" by simp
    then show False by simp
  next
    case False
    with e have "cl\<lparr>send_closed := True\<rparr> = cl" by (simp add: enqueue_def)
    then have "send_closed (cl\<lparr>send_closed := True\<rparr>) = send_closed cl" by simp
    with a show False by simp
  qed
qed

lemma enqueue_keeps [simp]:
  "room (enqueue cl msg) = room cl" "clientType (enqueue cl msg) = clientType cl"
  by (simp_all add: enqueue_def)

lemma enqueue_send: "length (send cl) < 256 \<Longrightarrow> send (enqueue cl msg) = send cl @ [msg]"
  by (simp add: enqueue_def)

text \<open>
  The loop of \<^verbatim>\<open>broadcastToRoom\<close>, run over the targets in any order without
  repetition, computes \<open>sendAll\<close>: the order of \<^verbatim>\<open>range\<close> does not matter.
\<close>

lemma sendAll_sendEach:
  "distinct ds \<Longrightarrow> sendEach s ds msg = sendAll s (set ds) msg"
proof (induction ds arbitrary: s)
  case Nil
  show ?case by (simp add: sendAll_def)
next
  case (Cons d ds)
  show ?case
  proof (cases "send_closed (client_at s d)")
    case True
    then show ?thesis by (simp add: sendMessage_def sendAll_def)
  next
    case False
    define s1 where "s1 = s\<lparr>client_at := (client_at s)(d := enqueue (client_at s d) msg)\<rparr>"
    from Cons.prems have nd: "d \<notin> set ds" and dist: "distinct ds" by simp_all
    have "sendEach s (d # ds) msg = sendEach s1 ds msg"
      using False by (simp add: sendMessage_def s1_def)
    also have "\<dots> = sendAll s1 (set ds) msg" by (rule Cons.IH [OF dist])
    also have "\<dots> = sendAll s (set (d # ds)) msg"
    proof -
      have same: "\<forall>e\<in>set ds. client_at s1 e = client_at s e"
        using nd by (auto simp: s1_def)
      have f1: "(\<lambda>e. if e \<in> set ds then enqueue (client_at s1 e) msg else client_at s1 e) =
            (\<lambda>e. if e \<in> set (d # ds) then enqueue (client_at s e) msg else client_at s e)"
        using nd by (auto simp: s1_def fun_eq_iff)
      have f2: "(\<exists>e\<in>set ds. send_closed (client_at s1 e)) =
            (\<exists>e\<in>set (d # ds). send_closed (client_at s e))"
        using same False by auto
      have f3: "s1\<lparr>client_at := F\<rparr> = s\<lparr>client_at := F\<rparr>" for F
        by (simp add: s1_def)
      show ?thesis unfolding sendAll_def f1 f2 f3 ..
    qed
    finally show ?thesis .
  qed
qed

text \<open>
  Replies and broadcasts in terms of \<open>deliver\<close>.
\<close>

lemma sendMessage_deliver:
  "sendMessage s c msg =
     (if send_closed (client_at s c) then Inl SendOnClosedChannel else Inr (deliver s {c} msg))"
proof -
  have "(client_at s)(c := enqueue (client_at s c) msg) =
        (\<lambda>d. if d \<in> {c} then enqueue (client_at s d) msg else client_at s d)"
    by (auto simp: fun_eq_iff)
  then show ?thesis by (simp add: sendMessage_def deliver_def)
qed

lemma sendError_deliver:
  "sendError s c txt =
     (if send_closed (client_at s c) then Inl SendOnClosedChannel
      else Inr (deliver s {c} (error_msg txt)))"
  by (simp add: sendError_def sendMessage_deliver error_msg_def)

lemma sendAll_deliver:
  "sendAll s D msg =
     (if \<exists>d\<in>D. send_closed (client_at s d) then Inl SendOnClosedChannel
      else Inr (deliver s D msg))"
  by (simp add: sendAll_def deliver_def)

lemma deliver_frame [simp]:
  "rooms (deliver s D msg) = rooms s"
  "room_at (deliver s D msg) = room_at s"
  "next_room (deliver s D msg) = next_room s"
  "room (client_at (deliver s D msg) d) = room (client_at s d)"
  "clientType (client_at (deliver s D msg) d) = clientType (client_at s d)"
  by (simp_all add: deliver_def)

lemma deliver_client:
  "client_at (deliver s D msg) d = (if d \<in> D then enqueue (client_at s d) msg else client_at s d)"
  by (simp add: deliver_def)

lemma dispatch_simps:
  "Type msg = ''create_room'' \<Longrightarrow> Client_handleMessage s c (Some msg) = handleCreateRoom s c msg"
  "Type msg = ''join_room'' \<Longrightarrow> Client_handleMessage s c (Some msg) = handleJoinRoom s c msg"
  "Type msg = ''offer'' \<Longrightarrow> Client_handleMessage s c (Some msg) = handleOffer s c msg"
  "Type msg = ''answer'' \<Longrightarrow> Client_handleMessage s c (Some msg) = handleAnswer s c msg"
  by (simp_all add: Client_handleMessage_def)

lemma handleCreateRoom_success:
  assumes "RoomID msg \<noteq> []" and "rooms s (RoomID msg) = None"
  shows "handleCreateRoom s c msg =
     (let a = next_room s;
          s3 = s\<lparr>room_at := (room_at s)(a := \<lparr>ID = RoomID msg, clients = {c}\<rparr>),
                 rooms := (rooms s)(RoomID msg \<mapsto> a),
                 next_room := Suc a,
                 client_at := (client_at s)
                   (c := (client_at s c)\<lparr>room := Some a, clientType := ''sender''\<rparr>)\<rparr>
      in if send_closed (client_at s c) then Inl SendOnClosedChannel
         else Inr (deliver s3 {c} (notice ''room_created'' (RoomID msg))))"
  using assms
  by (auto simp: handleCreateRoom_def GetRoom_def NewRoom_def Let_def sendMessage_deliver notice_def
      deliver_def intro!: SignalingServer.equality)

lemma handleJoinRoom_success:
  assumes "RoomID msg \<noteq> []" and "rooms s (RoomID msg) = Some a"
  shows "handleJoinRoom s c msg =
     (let s2 = s\<lparr>client_at := (client_at s)
                   (c := (client_at s c)\<lparr>room := Some a, clientType := ''receiver''\<rparr>),
                 room_at := (room_at s)
                   (a := (room_at s a)\<lparr>clients := insert c (clients (room_at s a))\<rparr>)\<rparr>
      in if send_closed (client_at s c) \<or> (\<exists>d\<in>clients (room_at s a) - {c}. send_closed (client_at s d))
         then Inl SendOnClosedChannel
         else Inr (deliver (deliver s2 {c} (notice ''room_joined'' (RoomID msg)))
                     (clients (room_at s a) - {c}) (notice ''peer_joined'' (RoomID msg))))"
  using assms
  by (auto simp: handleJoinRoom_def GetRoom_def Let_def sendMessage_deliver broadcastToRoom_def
      sendAll_deliver notice_def deliver_client)

subsection \<open>The registry invariant\<close>

text \<open>
  \<open>registry_ok\<close> holds of the new server and is kept by every dispatch and every
  departure, so it holds in every state the broker reaches.
\<close>

lemma registry_ok_deliver [simp]: "registry_ok (deliver s D msg) = registry_ok s"
  by (simp add: registry_ok_def)

lemma registry_ok_New: "registry_ok NewSignalingServer"
  by (simp add: registry_ok_def NewSignalingServer_def)

lemma handleCreateRoom_ok:
  assumes ok: "registry_ok s" and run: "handleCreateRoom s c msg = Inr s'"
  shows "registry_ok s'"
proof (cases "RoomID msg \<noteq> [] \<and> rooms s (RoomID msg) = None")
  case True
  with run have s': "s' = deliver (s\<lparr>room_at := (room_at s)(next_room s := \<lparr>ID = RoomID msg, clients = {c}\<rparr>),
                 rooms := (rooms s)(RoomID msg \<mapsto> next_room s),
                 next_room := Suc (next_room s),
                 client_at := (client_at s)
                   (c := (client_at s c)\<lparr>room := Some (next_room s), clientType := ''sender''\<rparr>)\<rparr>) {c} (notice ''room_created'' (RoomID msg))"
    by (simp add: handleCreateRoom_success Let_def split: if_splits)
  show ?thesis
    using ok True by (auto simp: s' registry_ok_def less_Suc_eq)
next
  case False
  with run ok show ?thesis
    by (auto simp: handleCreateRoom_def GetRoom_def sendError_deliver split: if_splits option.splits)
qed

lemma handleJoinRoom_ok:
  assumes ok: "registry_ok s" and run: "handleJoinRoom s c msg = Inr s'"
  shows "registry_ok s'"
proof (cases "RoomID msg \<noteq> [] \<and> rooms s (RoomID msg) \<noteq> None")
  case True
  then obtain a where a: "RoomID msg \<noteq> []" "rooms s (RoomID msg) = Some a" by auto
  from run show ?thesis
    using ok by (auto simp: handleJoinRoom_success [OF a] Let_def registry_ok_def split: if_splits)
next
  case False
  with run ok show ?thesis
    by (auto simp: handleJoinRoom_def GetRoom_def sendError_deliver split: if_splits option.splits)
qed

lemma leaveRoom_ok:
  assumes ok: "registry_ok s" and run: "leaveRoom s c = Inr s'"
  shows "registry_ok s'"
  using run ok
  by (auto simp: leaveRoom_def Let_def RemoveRoom_def broadcastToRoom_def sendAll_deliver
      registry_ok_def split: option.splits if_splits)

lemma Client_handleMessage_ok:
  assumes ok: "registry_ok s" and run: "Client_handleMessage s c data = Inr s'"
  shows "registry_ok s'"
  using run ok
  by (auto simp: Client_handleMessage_def sendError_deliver handleOffer_def handleAnswer_def
      broadcastToRoom_def sendAll_deliver
      split: option.splits if_splits dest: handleCreateRoom_ok handleJoinRoom_ok)

lemma serve_ok: "registry_ok s \<Longrightarrow> serve s evs = Inr s' \<Longrightarrow> registry_ok s'"
proof (induction s evs rule: serve.induct)
  case (1 s)
  then show ?case by simp
next
  case (2 s c data evs)
  then show ?case by (auto split: sum.splits dest: Client_handleMessage_ok)
next
  case (3 s c evs)
  then show ?case
    by (auto simp: readPump_defer_def split: sum.splits if_splits dest: leaveRoom_ok)
qed

subsection \<open>The states used as witnesses are reached\<close>

lemma NewSignalingServer_fields [simp]:
  "rooms NewSignalingServer = Map.empty"
  "room_at NewSignalingServer a = \<lparr>ID = [], clients = {}\<rparr>"
  "client_at NewSignalingServer c = NewClient"
  "next_room NewSignalingServer = 0"
  by (simp_all add: NewSignalingServer_def)

lemma one_room_reached:
  "serve NewSignalingServer [Frame 0 (Some (create_room ''r1''))] = Inr one_room"
  apply (simp add: dispatch_simps create_room_def handleCreateRoom_success Let_def NewClient_def one_room_def deliver_def enqueue_def)
  apply (rule SignalingServer.equality)
      apply (auto simp: fun_eq_iff enqueue_def)
  done

lemma two_peers_reached:
  "Client_handleMessage one_room 1 (Some (join_room ''r1'')) = Inr two_peers"
  apply (simp add: dispatch_simps join_room_def handleJoinRoom_success [where a = 0] one_room_def two_peers_def Let_def NewClient_def deliver_def enqueue_def)
  apply (rule SignalingServer.equality)
      apply (auto simp: fun_eq_iff notice_def enqueue_def)
  done

subsection \<open>C2: a connection that creates or joins a second room\<close>

text \<open>
  C2 says that once a connection has a role and a room, no later message changes the
  role or makes it a member of two rooms. Connection 0 creates \<open>r1\<close> and connection 1
  creates \<open>r2\<close>: connection 0 is the sender of room 0 and its only member. Then
  connection 0 sends \<^verbatim>\<open>join_room\<close> for \<open>r2\<close>: neither handler looks at \<^verbatim>\<open>c.room\<close>, so
  its role becomes receiver, its room becomes room 1, and it is in the member sets of both
  rooms. When connection 0 then ends, \<^verbatim>\<open>leaveRoom\<close> removes it from room 1 only: \<open>r1\<close>
  stays registered with the departed connection as its member, against the room
  lifecycle of SIGNALING.md (a room is deleted when all its clients have left).
\<close>

theorem rejoining_changes_role_and_keeps_old_membership:
  "(case serve NewSignalingServer
          [Frame 0 (Some (create_room ''r1'')), Frame 1 (Some (create_room ''r2''))] of
      Inl e \<Rightarrow> False
    | Inr s \<Rightarrow>
        clientType (client_at s 0) = ''sender'' \<and> room (client_at s 0) = Some 0
      \<and> rooms s ''r1'' = Some 0 \<and> rooms s ''r2'' = Some 1
      \<and> clients (room_at s 0) = {0} \<and> clients (room_at s 1) = {1})
 \<and> (case serve NewSignalingServer
          [Frame 0 (Some (create_room ''r1'')), Frame 1 (Some (create_room ''r2'')),
           Frame 0 (Some (join_room ''r2''))] of
      Inl e \<Rightarrow> False
    | Inr s \<Rightarrow>
        clientType (client_at s 0) = ''receiver'' \<and> room (client_at s 0) = Some 1
      \<and> rooms s ''r1'' = Some 0 \<and> rooms s ''r2'' = Some 1
      \<and> clients (room_at s 0) = {0} \<and> clients (room_at s 1) = {0, 1})
 \<and> (case serve NewSignalingServer
          [Frame 0 (Some (create_room ''r1'')), Frame 1 (Some (create_room ''r2'')),
           Frame 0 (Some (join_room ''r2'')), ReadFailed 0] of
      Inl e \<Rightarrow> False
    | Inr s \<Rightarrow>
        room (client_at s 0) = None
      \<and> rooms s ''r1'' = Some 0 \<and> rooms s ''r2'' = Some 1
      \<and> clients (room_at s 0) = {0} \<and> clients (room_at s 1) = {1})"
  by (simp add: dispatch_simps create_room_def join_room_def handleCreateRoom_success
      handleJoinRoom_success NewClient_def Let_def deliver_client enqueue_def
      readPump_defer_def leaveRoom_def broadcastToRoom_def sendAll_deliver)

subsection \<open>C3: room ids are unique while registered; reuse after the last member left\<close>

text \<open>
  What holds in a state the broker can reach (\<open>registry_ok\<close>). A \<^verbatim>\<open>create_room\<close> for an
  id that is registered is answered with the room-exists error on the sender's channel
  and the registry and the rooms stay as they were. \<^verbatim>\<open>NewRoom\<close> on an id that is not
  registered registers it for a new room with no members and leaves the registered rooms
  alone. And when the only member of the room registered under an id ends its connection
  while its \<^verbatim>\<open>room\<close> field still points to that room, the id is no longer registered,
  and any \<^verbatim>\<open>create_room\<close> for it from any connection with an open channel succeeds. The
  broker does not keep a member's \<^verbatim>\<open>room\<close> field pointing to the room:
  \<open>departed_creator_keeps_room_id_taken\<close> below reaches a state where it does not, and
  there the id cannot be used again.
\<close>

lemma room_ids_while_member_points_to_room:
  assumes ok: "registry_ok s"
  shows "(Type msg = ''create_room'' \<and> rooms s (RoomID msg) = Some a \<longrightarrow>
            Client_handleMessage s c (Some msg) =
              (if send_closed (client_at s c) then Inl SendOnClosedChannel
               else Inr (deliver s {c} (error_msg err_room_exists)))
          \<and> rooms (deliver s {c} (error_msg err_room_exists)) = rooms s
          \<and> room_at (deliver s {c} (error_msg err_room_exists)) = room_at s)
       \<and> (rooms s fresh = None \<longrightarrow>
            rooms (fst (NewRoom s fresh)) = (rooms s)(fresh \<mapsto> snd (NewRoom s fresh))
          \<and> room_at (fst (NewRoom s fresh)) (snd (NewRoom s fresh)) = \<lparr>ID = fresh, clients = {}\<rparr>
          \<and> (\<forall>rid' b. rooms s rid' = Some b \<longrightarrow> room_at (fst (NewRoom s fresh)) b = room_at s b))
       \<and> (rooms s rid = Some a \<and> room (client_at s c) = Some a \<and> clients (room_at s a) = {c} \<longrightarrow>
            (\<exists>s1. readPump_defer s c = Inr s1
               \<and> rooms s1 = (rooms s)(rid := None)
               \<and> room (client_at s1 c) = None
               \<and> (\<forall>d again. \<not> send_closed (client_at s1 d)
                      \<and> Type again = ''create_room'' \<and> RoomID again = rid \<longrightarrow>
                    (\<exists>s2. Client_handleMessage s1 d (Some again) = Inr s2
                       \<and> rooms s2 rid = Some (next_room s1)
                       \<and> room_at s2 (next_room s1) = \<lparr>ID = rid, clients = {d}\<rparr>
                       \<and> client_at s2 d =
                           enqueue ((client_at s1 d)\<lparr>room := Some (next_room s1), clientType := ''sender''\<rparr>)
                             (notice ''room_created'' rid)))))"
proof (intro conjI impI)
  assume h: "Type msg = ''create_room'' \<and> rooms s (RoomID msg) = Some a"
  then have t: "Type msg = ''create_room''" and r: "rooms s (RoomID msg) = Some a" by simp_all
  from ok r have ne: "RoomID msg \<noteq> []" by (auto simp: registry_ok_def)
  show "Client_handleMessage s c (Some msg) =
              (if send_closed (client_at s c) then Inl SendOnClosedChannel
               else Inr (deliver s {c} (error_msg err_room_exists)))"
    using t r ne by (simp add: dispatch_simps handleCreateRoom_def GetRoom_def sendError_deliver)
  show "rooms (deliver s {c} (error_msg err_room_exists)) = rooms s" by simp
  show "room_at (deliver s {c} (error_msg err_room_exists)) = room_at s" by simp
next
  assume "rooms s fresh = None"
  show "rooms (fst (NewRoom s fresh)) = (rooms s)(fresh \<mapsto> snd (NewRoom s fresh))"
    by (simp add: NewRoom_def Let_def)
  show "room_at (fst (NewRoom s fresh)) (snd (NewRoom s fresh)) = \<lparr>ID = fresh, clients = {}\<rparr>"
    by (simp add: NewRoom_def Let_def)
  show "\<forall>rid' b. rooms s rid' = Some b \<longrightarrow> room_at (fst (NewRoom s fresh)) b = room_at s b"
    using ok by (auto simp: NewRoom_def Let_def registry_ok_def)
next
  assume h: "rooms s rid = Some a \<and> room (client_at s c) = Some a \<and> clients (room_at s a) = {c}"
  then have r: "rooms s rid = Some a" and rc: "room (client_at s c) = Some a"
    and m: "clients (room_at s a) = {c}" by simp_all
  from ok r have ne: "rid \<noteq> []" and id: "ID (room_at s a) = rid"
    by (auto simp: registry_ok_def)
  define s1 where "s1 = s\<lparr>room_at := (room_at s)(a := (room_at s a)\<lparr>clients := {}\<rparr>),
      rooms := (rooms s)(rid := None),
      client_at := (client_at s)(c := (client_at s c)\<lparr>room := None\<rparr>)\<rparr>"
  have leave: "readPump_defer s c = Inr s1"
    using rc m id
    by (auto simp: readPump_defer_def leaveRoom_def Let_def RemoveRoom_def s1_def
        intro!: SignalingServer.equality)
  have gone: "rooms s1 rid = None" by (simp add: s1_def)
  have again: "\<exists>s2. Client_handleMessage s1 d (Some again) = Inr s2
                       \<and> rooms s2 rid = Some (next_room s1)
                       \<and> room_at s2 (next_room s1) = \<lparr>ID = rid, clients = {d}\<rparr>
                       \<and> client_at s2 d =
                           enqueue ((client_at s1 d)\<lparr>room := Some (next_room s1), clientType := ''sender''\<rparr>)
                             (notice ''room_created'' rid)"
    if "\<not> send_closed (client_at s1 d) \<and> Type again = ''create_room'' \<and> RoomID again = rid"
    for d again
  proof -
    from that have op: "\<not> send_closed (client_at s1 d)" and ty: "Type again = ''create_room''"
      and rd: "RoomID again = rid" by simp_all
    have "Client_handleMessage s1 d (Some again) = handleCreateRoom s1 d again"
      using ty by (simp add: dispatch_simps)
    moreover have "RoomID again \<noteq> []" "rooms s1 (RoomID again) = None"
      using ne gone rd by simp_all
    ultimately show ?thesis
      using op rd by (simp add: handleCreateRoom_success Let_def deliver_client)
  qed
  show "\<exists>s1. readPump_defer s c = Inr s1
               \<and> rooms s1 = (rooms s)(rid := None)
               \<and> room (client_at s1 c) = None
               \<and> (\<forall>d again. \<not> send_closed (client_at s1 d)
                      \<and> Type again = ''create_room'' \<and> RoomID again = rid \<longrightarrow>
                    (\<exists>s2. Client_handleMessage s1 d (Some again) = Inr s2
                       \<and> rooms s2 rid = Some (next_room s1)
                       \<and> room_at s2 (next_room s1) = \<lparr>ID = rid, clients = {d}\<rparr>
                       \<and> client_at s2 d =
                           enqueue ((client_at s1 d)\<lparr>room := Some (next_room s1), clientType := ''sender''\<rparr>)
                             (notice ''room_created'' rid)))"
    using leave again by (intro exI [of _ s1]) (simp add: s1_def)
qed

text \<open>
  In \<open>one_room\<close>: connection 0 asks for \<open>r1\<close> again and is refused; \<open>r2\<close> is free;
  connection 0 leaves and connection 1 creates \<open>r1\<close> anew.
\<close>

lemma room_ids_while_member_points_to_room_instance:
  "registry_ok one_room
   \<and> rooms one_room ''r1'' = Some 0 \<and> rooms one_room ''r2'' = None
   \<and> room (client_at one_room 0) = Some 0 \<and> clients (room_at one_room 0) = {0}
   \<and> Client_handleMessage one_room 0 (Some (create_room ''r1'')) =
        Inr (deliver one_room {0} (error_msg err_room_exists))
   \<and> rooms (fst (NewRoom one_room ''r2'')) = (rooms one_room)(''r2'' \<mapsto> 1)
   \<and> room_at (fst (NewRoom one_room ''r2'')) 1 = \<lparr>ID = ''r2'', clients = {}\<rparr>
   \<and> (\<exists>s1. readPump_defer one_room 0 = Inr s1
         \<and> rooms s1 ''r1'' = None
         \<and> (\<exists>s2. Client_handleMessage s1 1 (Some (create_room ''r1'')) = Inr s2
                \<and> rooms s2 ''r1'' = Some 1
                \<and> room_at s2 1 = \<lparr>ID = ''r1'', clients = {1}\<rparr>))"
proof -
  have ok: "registry_ok one_room" by (simp add: registry_ok_def one_room_def)
  have f: "rooms one_room ''r1'' = Some 0" "rooms one_room ''r2'' = None"
    "room (client_at one_room 0) = Some 0" "clients (room_at one_room 0) = {0}"
    "\<not> send_closed (client_at one_room 0)" "Type (create_room ''r1'') = ''create_room''"
    "RoomID (create_room ''r1'') = ''r1''" "next_room one_room = 1"
    by (simp_all add: one_room_def create_room_def)
  note t = room_ids_while_member_points_to_room [OF ok, of "create_room ''r1''" 0 0 "''r2''" "''r1''"]
  from t f have a: "Client_handleMessage one_room 0 (Some (create_room ''r1'')) =
        Inr (deliver one_room {0} (error_msg err_room_exists))" by simp
  from t f have b: "rooms (fst (NewRoom one_room ''r2'')) = (rooms one_room)(''r2'' \<mapsto> 1)"
    "room_at (fst (NewRoom one_room ''r2'')) 1 = \<lparr>ID = ''r2'', clients = {}\<rparr>"
    by (simp_all add: NewRoom_def Let_def)
  from t f obtain s1 where s1: "readPump_defer one_room 0 = Inr s1"
     "rooms s1 = (rooms one_room)(''r1'' := None)"
     "\<forall>d again. \<not> send_closed (client_at s1 d)
                      \<and> Type again = ''create_room'' \<and> RoomID again = ''r1'' \<longrightarrow>
                    (\<exists>s2. Client_handleMessage s1 d (Some again) = Inr s2
                       \<and> rooms s2 ''r1'' = Some (next_room s1)
                       \<and> room_at s2 (next_room s1) = \<lparr>ID = ''r1'', clients = {d}\<rparr>
                       \<and> client_at s2 d =
                           enqueue ((client_at s1 d)\<lparr>room := Some (next_room s1), clientType := ''sender''\<rparr>)
                             (notice ''room_created'' ''r1''))"
    by auto
  have s1v: "next_room s1 = 1" "\<not> send_closed (client_at s1 1)"
    using s1(1)
    by (auto simp: readPump_defer_def leaveRoom_def Let_def RemoveRoom_def one_room_def NewClient_def)
  from s1(3) [rule_format, of 1 "create_room ''r1''"] s1v f(6,7)
  obtain s2 where "Client_handleMessage s1 1 (Some (create_room ''r1'')) = Inr s2"
     "rooms s2 ''r1'' = Some 1" "room_at s2 1 = \<lparr>ID = ''r1'', clients = {1}\<rparr>"
    by auto
  with s1 have c: "\<exists>s1. readPump_defer one_room 0 = Inr s1
         \<and> rooms s1 ''r1'' = None
         \<and> (\<exists>s2. Client_handleMessage s1 1 (Some (create_room ''r1'')) = Inr s2
                \<and> rooms s2 ''r1'' = Some 1
                \<and> room_at s2 1 = \<lparr>ID = ''r1'', clients = {1}\<rparr>)"
    by auto
  from ok f a b c show ?thesis by simp
qed

lemma handleCreateRoom_exists:
  "RoomID msg \<noteq> [] \<Longrightarrow> rooms s (RoomID msg) \<noteq> None \<Longrightarrow>
   handleCreateRoom s c msg = sendError s c err_room_exists"
  by (auto simp: handleCreateRoom_def GetRoom_def)

text \<open>
  C3 says that after the last member of a room has left, the room is removed from the
  registry and a \<^verbatim>\<open>create_room\<close> with the same id succeeds again. Connection 0 creates
  \<open>r1\<close>, then creates \<open>r2\<close> (no handler looks at \<^verbatim>\<open>c.room\<close>, so its \<^verbatim>\<open>room\<close> field now
  points to \<open>r2\<close>), then its connection ends: \<^verbatim>\<open>leaveRoom\<close> removes it from \<open>r2\<close> and
  removes \<open>r2\<close> only. In the state reached (it satisfies \<open>registry_ok\<close>, see the
  lemma after the theorem), the only member of \<open>r1\<close> has left, yet \<open>r1\<close> is still registered with that connection in its
  member set; no connection's \<^verbatim>\<open>room\<close> field points anywhere, so no departure changes
  the state any more, and a \<^verbatim>\<open>create_room\<close> for \<open>r1\<close>, from the departed connection's
  address or from another connection, is answered with the room-exists error and leaves
  \<open>r1\<close> registered. The first two parts of C3 hold (the lemma above); the reuse fails
  here by the same missing check as in C2.
\<close>

theorem departed_creator_keeps_room_id_taken:
  "(case serve NewSignalingServer
          [Frame 0 (Some (create_room ''r1'')), Frame 0 (Some (create_room ''r2'')),
           ReadFailed 0] of
      Inl e \<Rightarrow> False
    | Inr s \<Rightarrow>
        rooms s ''r1'' = Some 0 \<and> rooms s ''r2'' = None
      \<and> clients (room_at s 0) = {0}
      \<and> (\<forall>d. room (client_at s d) = None)
      \<and> (\<forall>d. readPump_defer s d = Inr s)
      \<and> Client_handleMessage s 0 (Some (create_room ''r1'')) =
          Inr (deliver s {0} (error_msg err_room_exists))
      \<and> Client_handleMessage s 1 (Some (create_room ''r1'')) =
          Inr (deliver s {1} (error_msg err_room_exists))
      \<and> rooms (deliver s {1} (error_msg err_room_exists)) ''r1'' = Some 0)"
  by (simp add: dispatch_simps create_room_def handleCreateRoom_success
      NewClient_def Let_def deliver_client enqueue_def
      readPump_defer_def leaveRoom_def RemoveRoom_def
      handleCreateRoom_exists sendError_deliver)

text \<open>The state of that run satisfies the registry invariant, as every reached state does.\<close>

lemma departed_creator_state_is_registry_ok:
  "serve NewSignalingServer
     [Frame 0 (Some (create_room ''r1'')), Frame 0 (Some (create_room ''r2'')),
      ReadFailed 0] = Inr s \<Longrightarrow> registry_ok s"
  by (rule serve_ok [OF registry_ok_New])

subsection \<open>C4: offers need the sender role, answers the receiver role\<close>

text \<open>
  C4: an offer or an answer from a connection with no room is answered with the
  not-in-room error; an offer from a connection in a room whose role is not sender, and
  an answer from one whose role is not receiver, is answered with the wrong-role error.
  In each of these cases the reply on the connection's own channel is the only change of
  the state, so nothing is broadcast. An offer from a sender in room \<open>a\<close> hands every
  member of \<open>a\<close> other than the sender an offer carrying the message's room id, file id
  and SDP, and changes nothing else. (A panic is the result exactly when a channel to be
  written to is already closed.) The last two conjuncts say what \<open>deliver\<close> and
  \<open>enqueue\<close> do.
\<close>

theorem offer_and_answer_are_role_checked:
  "(Type msg = ''offer'' \<and> room (client_at s c) = None \<longrightarrow>
      Client_handleMessage s c (Some msg) =
        (if send_closed (client_at s c) then Inl SendOnClosedChannel
         else Inr (deliver s {c} (error_msg err_not_in_room))))
 \<and> (Type msg = ''answer'' \<and> room (client_at s c) = None \<longrightarrow>
      Client_handleMessage s c (Some msg) =
        (if send_closed (client_at s c) then Inl SendOnClosedChannel
         else Inr (deliver s {c} (error_msg err_not_in_room))))
 \<and> (Type msg = ''offer'' \<and> room (client_at s c) \<noteq> None \<and> clientType (client_at s c) \<noteq> ''sender'' \<longrightarrow>
      Client_handleMessage s c (Some msg) =
        (if send_closed (client_at s c) then Inl SendOnClosedChannel
         else Inr (deliver s {c} (error_msg err_only_sender))))
 \<and> (Type msg = ''answer'' \<and> room (client_at s c) \<noteq> None \<and> clientType (client_at s c) \<noteq> ''receiver'' \<longrightarrow>
      Client_handleMessage s c (Some msg) =
        (if send_closed (client_at s c) then Inl SendOnClosedChannel
         else Inr (deliver s {c} (error_msg err_only_receiver))))
 \<and> (Type msg = ''offer'' \<and> room (client_at s c) = Some a \<and> clientType (client_at s c) = ''sender'' \<longrightarrow>
      Client_handleMessage s c (Some msg) =
        (if \<exists>d\<in>clients (room_at s a) - {c}. send_closed (client_at s d)
         then Inl SendOnClosedChannel
         else Inr (deliver s (clients (room_at s a) - {c})
                     \<lparr>Type = ''offer'', RoomID = RoomID msg, FileID = FileID msg,
                      SDP = SDP msg, Error = [], ClientType = []\<rparr>)))
 \<and> (\<forall>D m d. client_at (deliver s D m) d =
               (if d \<in> D then enqueue (client_at s d) m else client_at s d))
 \<and> (\<forall>cl m. length (send cl) < 256 \<longrightarrow> send (enqueue cl m) = send cl @ [m])"
  by (auto simp: dispatch_simps handleOffer_def handleAnswer_def sendError_deliver
      broadcastToRoom_def sendAll_deliver deliver_client enqueue_send)

text \<open>
  On the new server an offer and an answer are refused for want of a room; in
  \<open>two_peers\<close> the receiver's offer and the sender's answer are refused for the role, and
  the sender's offer reaches the receiver only.
\<close>

theorem offer_and_answer_are_role_checked_witness:
  "Client_handleMessage NewSignalingServer 0 (Some sample_offer) =
     Inr (deliver NewSignalingServer {0} (error_msg err_not_in_room))
   \<and> Client_handleMessage NewSignalingServer 0 (Some sample_answer) =
     Inr (deliver NewSignalingServer {0} (error_msg err_not_in_room))
   \<and> Client_handleMessage two_peers 1 (Some sample_offer) =
     Inr (deliver two_peers {1} (error_msg err_only_sender))
   \<and> Client_handleMessage two_peers 0 (Some sample_answer) =
     Inr (deliver two_peers {0} (error_msg err_only_receiver))
   \<and> Client_handleMessage two_peers 0 (Some sample_offer) =
     Inr (deliver two_peers {1} sample_offer)
   \<and> send (client_at (deliver two_peers {1} sample_offer) 1) =
       [notice ''room_joined'' ''r1'', sample_offer]
   \<and> client_at (deliver two_peers {1} sample_offer) 0 = client_at two_peers 0"
proof -
  have a: "Client_handleMessage NewSignalingServer 0 (Some sample_offer) =
     Inr (deliver NewSignalingServer {0} (error_msg err_not_in_room))"
    "Client_handleMessage NewSignalingServer 0 (Some sample_answer) =
     Inr (deliver NewSignalingServer {0} (error_msg err_not_in_room))"
    using offer_and_answer_are_role_checked [of sample_offer NewSignalingServer 0]
      offer_and_answer_are_role_checked [of sample_answer NewSignalingServer 0]
    by (simp_all add: sample_offer_def sample_answer_def NewClient_def)
  have b: "Client_handleMessage two_peers 1 (Some sample_offer) =
     Inr (deliver two_peers {1} (error_msg err_only_sender))"
    using offer_and_answer_are_role_checked [of sample_offer two_peers 1]
    by (simp add: sample_offer_def two_peers_def)
  have c: "Client_handleMessage two_peers 0 (Some sample_answer) =
     Inr (deliver two_peers {0} (error_msg err_only_receiver))"
    using offer_and_answer_are_role_checked [of sample_answer two_peers 0]
    by (simp add: sample_answer_def two_peers_def)
  have "clients (room_at two_peers 0) - {0} = {1}" by (auto simp: two_peers_def)
  then have d: "Client_handleMessage two_peers 0 (Some sample_offer) =
     Inr (deliver two_peers {1} sample_offer)"
    using offer_and_answer_are_role_checked [of sample_offer two_peers 0 0]
    by (simp add: sample_offer_def two_peers_def)
  have e: "send (client_at (deliver two_peers {1} sample_offer) 1) =
       [notice ''room_joined'' ''r1'', sample_offer]"
     "client_at (deliver two_peers {1} sample_offer) 0 = client_at two_peers 0"
    using offer_and_answer_are_role_checked [of sample_offer two_peers 0 0]
    by (simp_all add: two_peers_def enqueue_def)
  from a b c d e show ?thesis by simp
qed

subsection \<open>C5: joining a room that is not registered\<close>

text \<open>
  C5 says that a \<^verbatim>\<open>join_room\<close> for any id that is not registered is answered with the
  not-found error. The empty id is never registered, and a \<^verbatim>\<open>join_room\<close> for it is
  answered with the empty-id error instead: the check for the empty id comes first.
\<close>

theorem join_with_empty_id_is_not_reported_as_not_found:
  "rooms NewSignalingServer [] = None
   \<and> Client_handleMessage NewSignalingServer 0 (Some (join_room [])) =
       Inr (deliver NewSignalingServer {0} (error_msg err_empty_room_id))
   \<and> send (client_at (deliver NewSignalingServer {0} (error_msg err_empty_room_id)) 0) =
       [error_msg err_empty_room_id]
   \<and> Error (error_msg err_empty_room_id) \<noteq> err_room_not_found"
  by (simp add: dispatch_simps join_room_def handleJoinRoom_def sendError_deliver
      NewSignalingServer_def NewClient_def deliver_client enqueue_def error_msg_def
      err_empty_room_id_def err_room_not_found_def)

text \<open>
  C5 as amended: a \<^verbatim>\<open>join_room\<close> for an id that is not registered is answered on the
  connection's own channel with the not-found error when the id is not empty, and with
  the empty-id error when it is; in both cases the registry, the rooms, and every
  connection's room and role stay as they were, and no other connection is touched.
\<close>

theorem join_of_unregistered_room_changes_nothing:
  assumes "Type msg = ''join_room''" and "rooms s (RoomID msg) = None"
  shows "Client_handleMessage s c (Some msg) =
           (if send_closed (client_at s c) then Inl SendOnClosedChannel
            else Inr (deliver s {c}
                   (error_msg (if RoomID msg = [] then err_empty_room_id else err_room_not_found))))
       \<and> (\<forall>s'. Client_handleMessage s c (Some msg) = Inr s' \<longrightarrow>
              rooms s' = rooms s \<and> room_at s' = room_at s \<and> next_room s' = next_room s
            \<and> (\<forall>d. room (client_at s' d) = room (client_at s d)
                  \<and> clientType (client_at s' d) = clientType (client_at s d))
            \<and> (\<forall>d. d \<noteq> c \<longrightarrow> client_at s' d = client_at s d))"
proof -
  have eq: "Client_handleMessage s c (Some msg) =
           (if send_closed (client_at s c) then Inl SendOnClosedChannel
            else Inr (deliver s {c}
                   (error_msg (if RoomID msg = [] then err_empty_room_id else err_room_not_found))))"
    using assms by (simp add: dispatch_simps handleJoinRoom_def GetRoom_def sendError_deliver)
  show ?thesis
    unfolding eq by (auto simp: deliver_client split: if_splits)
qed

text \<open>
  In \<open>one_room\<close>, connection 1 asks to join \<open>r2\<close>, which nobody created.
\<close>

theorem join_of_unregistered_room_changes_nothing_witness:
  "Type (join_room ''r2'') = ''join_room'' \<and> rooms one_room (RoomID (join_room ''r2'')) = None
   \<and> Client_handleMessage one_room 1 (Some (join_room ''r2'')) =
        Inr (deliver one_room {1} (error_msg err_room_not_found))
   \<and> rooms (deliver one_room {1} (error_msg err_room_not_found)) = rooms one_room
   \<and> room (client_at (deliver one_room {1} (error_msg err_room_not_found)) 1) = None
   \<and> clientType (client_at (deliver one_room {1} (error_msg err_room_not_found)) 1) = []
   \<and> send (client_at (deliver one_room {1} (error_msg err_room_not_found)) 1) =
        [error_msg err_room_not_found]"
proof -
  have h: "Type (join_room ''r2'') = ''join_room''" "rooms one_room (RoomID (join_room ''r2'')) = None"
    by (simp_all add: join_room_def one_room_def)
  have c: "\<not> send_closed (client_at one_room 1)" "RoomID (join_room ''r2'') \<noteq> []"
    by (simp_all add: join_room_def one_room_def NewClient_def)
  note t = join_of_unregistered_room_changes_nothing [OF h, of 1]
  from t have "Client_handleMessage one_room 1 (Some (join_room ''r2'')) =
           (if send_closed (client_at one_room 1) then Inl SendOnClosedChannel
            else Inr (deliver one_room {1}
                   (error_msg (if RoomID (join_room ''r2'') = [] then err_empty_room_id else err_room_not_found))))"
    by (rule conjunct1)
  with c have run: "Client_handleMessage one_room 1 (Some (join_room ''r2'')) =
        Inr (deliver one_room {1} (error_msg err_room_not_found))"
    by (simp only: if_False)
  have kept: "rooms (deliver one_room {1} (error_msg err_room_not_found)) = rooms one_room"
    "room (client_at (deliver one_room {1} (error_msg err_room_not_found)) 1) = room (client_at one_room 1)"
    "clientType (client_at (deliver one_room {1} (error_msg err_room_not_found)) 1) = clientType (client_at one_room 1)"
    using conjunct2 [OF t, rule_format, OF run] by simp_all
  have cl: "room (client_at one_room 1) = None" "clientType (client_at one_room 1) = []"
    by (simp_all add: one_room_def NewClient_def)
  have q: "send (client_at (deliver one_room {1} (error_msg err_room_not_found)) 1) =
        [error_msg err_room_not_found]"
    by (simp add: deliver_client enqueue_def one_room_def NewClient_def)
  from h run kept q cl show ?thesis by simp
qed

subsection \<open>C6: who receives a broadcast\<close>

text \<open>
  C6: after a successful \<^verbatim>\<open>join_room\<close> into room \<open>a\<close>, the room's members are the old
  members and the joiner, the joiner has taken \<open>room_joined\<close> and no \<open>peer_joined\<close>, every
  other member has taken exactly one \<open>peer_joined\<close>, and every connection outside the
  room is unchanged. After a successful offer (answer) from a sender (receiver) in room
  \<open>a\<close>, every member of \<open>a\<close> other than the originating connection has taken exactly
  one offer (answer), and every other connection, the originator included, is
  unchanged. Taking a message always changes a connection with an open channel, so the
  connections changed are exactly the recipients.
\<close>

theorem broadcasts_exclude_their_origin:
  "(Type msg = ''join_room'' \<and> RoomID msg \<noteq> [] \<and> rooms s (RoomID msg) = Some a
      \<and> Client_handleMessage s c (Some msg) = Inr s' \<longrightarrow>
        clients (room_at s' a) = insert c (clients (room_at s a))
      \<and> (\<forall>d. client_at s' d =
            (if d = c then
               enqueue ((client_at s c)\<lparr>room := Some a, clientType := ''receiver''\<rparr>)
                 (notice ''room_joined'' (RoomID msg))
             else if d \<in> clients (room_at s' a) then
               enqueue (client_at s d) (notice ''peer_joined'' (RoomID msg))
             else client_at s d)))
 \<and> (Type msg = ''offer'' \<and> room (client_at s c) = Some a \<and> clientType (client_at s c) = ''sender''
      \<and> Client_handleMessage s c (Some msg) = Inr s' \<longrightarrow>
        room_at s' = room_at s
      \<and> (\<forall>d. client_at s' d =
            (if d \<in> clients (room_at s a) \<and> d \<noteq> c then
               enqueue (client_at s d)
                 \<lparr>Type = ''offer'', RoomID = RoomID msg, FileID = FileID msg, SDP = SDP msg,
                  Error = [], ClientType = []\<rparr>
             else client_at s d)))
 \<and> (Type msg = ''answer'' \<and> room (client_at s c) = Some a \<and> clientType (client_at s c) = ''receiver''
      \<and> Client_handleMessage s c (Some msg) = Inr s' \<longrightarrow>
        room_at s' = room_at s
      \<and> (\<forall>d. client_at s' d =
            (if d \<in> clients (room_at s a) \<and> d \<noteq> c then
               enqueue (client_at s d)
                 \<lparr>Type = ''answer'', RoomID = RoomID msg, FileID = [], SDP = SDP msg,
                  Error = [], ClientType = []\<rparr>
             else client_at s d)))
 \<and> (\<forall>cl m. \<not> send_closed cl \<longrightarrow> enqueue cl m \<noteq> cl)"
proof (intro conjI impI allI)
  fix cl :: Client and m assume "\<not> send_closed cl"
  then show "enqueue cl m \<noteq> cl" by (rule enqueue_changes)
next
  assume h: "Type msg = ''join_room'' \<and> RoomID msg \<noteq> [] \<and> rooms s (RoomID msg) = Some a
      \<and> Client_handleMessage s c (Some msg) = Inr s'"
  then have t: "Type msg = ''join_room''" "RoomID msg \<noteq> []" "rooms s (RoomID msg) = Some a"
    and run: "Client_handleMessage s c (Some msg) = Inr s'" by simp_all
  from run t(1) have j: "handleJoinRoom s c msg = Inr s'" by (simp add: dispatch_simps)
  from t have s': "s' = deliver (deliver (s\<lparr>client_at := (client_at s)
                   (c := (client_at s c)\<lparr>room := Some a, clientType := ''receiver''\<rparr>),
                 room_at := (room_at s)
                   (a := (room_at s a)\<lparr>clients := insert c (clients (room_at s a))\<rparr>)\<rparr>) {c} (notice ''room_joined'' (RoomID msg)))
                     (clients (room_at s a) - {c}) (notice ''peer_joined'' (RoomID msg))"
    using j by (simp add: handleJoinRoom_success Let_def split: if_splits)
  show m: "clients (room_at s' a) = insert c (clients (room_at s a))"
    by (simp add: s')
  fix d
  show "client_at s' d =
            (if d = c then
               enqueue ((client_at s c)\<lparr>room := Some a, clientType := ''receiver''\<rparr>)
                 (notice ''room_joined'' (RoomID msg))
             else if d \<in> clients (room_at s' a) then
               enqueue (client_at s d) (notice ''peer_joined'' (RoomID msg))
             else client_at s d)"
    unfolding m by (simp add: s' deliver_client)
next
  assume h: "Type msg = ''offer'' \<and> room (client_at s c) = Some a \<and> clientType (client_at s c) = ''sender''
      \<and> Client_handleMessage s c (Some msg) = Inr s'"
  then have t: "Type msg = ''offer''" "room (client_at s c) = Some a" "clientType (client_at s c) = ''sender''"
    and run: "Client_handleMessage s c (Some msg) = Inr s'" by simp_all
  from run t have s': "s' = deliver s (clients (room_at s a) - {c}) \<lparr>Type = ''offer'', RoomID = RoomID msg, FileID = FileID msg, SDP = SDP msg,
                  Error = [], ClientType = []\<rparr>"
    by (simp add: dispatch_simps handleOffer_def broadcastToRoom_def sendAll_deliver split: if_splits)
  show "room_at s' = room_at s" by (simp add: s')
  fix d
  show "client_at s' d =
            (if d \<in> clients (room_at s a) \<and> d \<noteq> c then
               enqueue (client_at s d)
                 \<lparr>Type = ''offer'', RoomID = RoomID msg, FileID = FileID msg, SDP = SDP msg,
                  Error = [], ClientType = []\<rparr>
             else client_at s d)"
    by (simp add: s' deliver_client)
next
  assume h: "Type msg = ''answer'' \<and> room (client_at s c) = Some a \<and> clientType (client_at s c) = ''receiver''
      \<and> Client_handleMessage s c (Some msg) = Inr s'"
  then have t: "Type msg = ''answer''" "room (client_at s c) = Some a" "clientType (client_at s c) = ''receiver''"
    and run: "Client_handleMessage s c (Some msg) = Inr s'" by simp_all
  from run t have s': "s' = deliver s (clients (room_at s a) - {c}) \<lparr>Type = ''answer'', RoomID = RoomID msg, FileID = [], SDP = SDP msg,
                  Error = [], ClientType = []\<rparr>"
    by (simp add: dispatch_simps handleAnswer_def broadcastToRoom_def sendAll_deliver split: if_splits)
  show "room_at s' = room_at s" by (simp add: s')
  fix d
  show "client_at s' d =
            (if d \<in> clients (room_at s a) \<and> d \<noteq> c then
               enqueue (client_at s d)
                 \<lparr>Type = ''answer'', RoomID = RoomID msg, FileID = [], SDP = SDP msg,
                  Error = [], ClientType = []\<rparr>
             else client_at s d)"
    by (simp add: s' deliver_client)
qed

text \<open>
  Connection 1 joins \<open>r1\<close> in \<open>one_room\<close>: connection 0 takes \<open>peer_joined\<close>,
  connection 1 only \<open>room_joined\<close>. In \<open>two_peers\<close> the sender's offer reaches
  connection 1 only and the receiver's answer connection 0 only.
\<close>

theorem broadcasts_exclude_their_origin_witness:
  "Client_handleMessage one_room 1 (Some (join_room ''r1'')) = Inr two_peers
   \<and> clients (room_at two_peers 0) = {0, 1}
   \<and> send (client_at two_peers 0) = send (client_at one_room 0) @ [notice ''peer_joined'' ''r1'']
   \<and> send (client_at two_peers 1) = [notice ''room_joined'' ''r1'']
   \<and> Client_handleMessage two_peers 0 (Some sample_offer) = Inr (deliver two_peers {1} sample_offer)
   \<and> client_at (deliver two_peers {1} sample_offer) 0 = client_at two_peers 0
   \<and> client_at (deliver two_peers {1} sample_offer) 1 = enqueue (client_at two_peers 1) sample_offer
   \<and> Client_handleMessage two_peers 1 (Some sample_answer) = Inr (deliver two_peers {0} sample_answer)
   \<and> client_at (deliver two_peers {0} sample_answer) 1 = client_at two_peers 1
   \<and> client_at (deliver two_peers {0} sample_answer) 0 = enqueue (client_at two_peers 0) sample_answer"
proof -
  have j: "Type (join_room ''r1'') = ''join_room'' \<and> RoomID (join_room ''r1'') \<noteq> []
      \<and> rooms one_room (RoomID (join_room ''r1'')) = Some 0
      \<and> Client_handleMessage one_room 1 (Some (join_room ''r1'')) = Inr two_peers"
    using two_peers_reached by (simp add: join_room_def one_room_def)
  have o: "Type sample_offer = ''offer'' \<and> room (client_at two_peers 0) = Some 0
      \<and> clientType (client_at two_peers 0) = ''sender''
      \<and> Client_handleMessage two_peers 0 (Some sample_offer) = Inr (deliver two_peers {1} sample_offer)"
    by (auto simp: dispatch_simps sample_offer_def handleOffer_def broadcastToRoom_def
        sendAll_deliver two_peers_def intro!: arg_cong [where f = "\<lambda>D. deliver _ D _"])
  have a: "Type sample_answer = ''answer'' \<and> room (client_at two_peers 1) = Some 0
      \<and> clientType (client_at two_peers 1) = ''receiver''
      \<and> Client_handleMessage two_peers 1 (Some sample_answer) = Inr (deliver two_peers {0} sample_answer)"
    by (auto simp: dispatch_simps sample_answer_def handleAnswer_def broadcastToRoom_def
        sendAll_deliver two_peers_def intro!: arg_cong [where f = "\<lambda>D. deliver _ D _"])
  note tj = broadcasts_exclude_their_origin [of "join_room ''r1''" one_room 0 1 two_peers]
  note to = broadcasts_exclude_their_origin [of sample_offer two_peers 0 0 "deliver two_peers {1} sample_offer"]
  note ta = broadcasts_exclude_their_origin [of sample_answer two_peers 0 1 "deliver two_peers {0} sample_answer"]
  have m: "clients (room_at two_peers 0) = {0, 1}" by (simp add: two_peers_def)
  have q: "send (client_at two_peers 0) = send (client_at one_room 0) @ [notice ''peer_joined'' ''r1'']"
    "send (client_at two_peers 1) = [notice ''room_joined'' ''r1'']"
    using tj j by (simp_all add: m join_room_def one_room_def enqueue_def NewClient_def)
  have r: "client_at (deliver two_peers {1} sample_offer) 0 = client_at two_peers 0"
    "client_at (deliver two_peers {1} sample_offer) 1 = enqueue (client_at two_peers 1) sample_offer"
    using to o by (simp_all add: m sample_offer_def)
  have t: "client_at (deliver two_peers {0} sample_answer) 1 = client_at two_peers 1"
    "client_at (deliver two_peers {0} sample_answer) 0 = enqueue (client_at two_peers 0) sample_answer"
    using ta a by (simp_all add: m sample_answer_def)
  from j o a m q r t show ?thesis by simp
qed

end
